theory Spec2Isabelle
  imports Complex_Main "HOL-Library.Sublist"
begin

section \<open>JavaScript values and JSON.stringify\<close>

text \<open>
  The service passes plain JavaScript objects around and serialises them with
  \<open>JSON.stringify\<close>, both for cache payloads and for cache keys.  An object is the list
  of its own properties in insertion order, which is the order \<open>JSON.stringify\<close>
  prints them in.  Numbers are the reals that finite doubles denote; the two results
  of a division by zero are kept apart as \<open>JNaN\<close> and \<open>JInfinity\<close>.  Property
  names that look like array indices (which JavaScript enumerates first) do not occur
  among the fixed field names used here and are not treated specially.
\<close>

datatype jsval =
    JUndefined
  | JNull
  | JBool bool
  | JNum real
  | JNaN
  | JInfinity
  | JStr string
  | JArr "jsval list"
  | JObj "(string \<times> jsval) list"

text \<open>Decimal digits of a natural number and of an integer.\<close>

fun show_nat :: "nat \<Rightarrow> string" where
  "show_nat n = (if n < 10 then [char_of (48 + n)] else show_nat (n div 10) @ [char_of (48 + n mod 10)])"

declare show_nat.simps [simp del]

definition show_int :: "int \<Rightarrow> string" where
  "show_int i = (if i < 0 then CHR ''-'' # show_nat (nat (- i)) else show_nat (nat i))"

text \<open>
  \<open>Number::toString\<close>: an integer below \<open>10^21\<close> in absolute value prints as its
  decimal digits.  Every other finite number prints as the shortest digit string that
  reads back as the same double; that string is a matter of floating point and is taken
  from the parameter \<open>nd\<close>.
\<close>

definition Number_toString :: "(real \<Rightarrow> string) \<Rightarrow> real \<Rightarrow> string" where
  "Number_toString nd r =
     (if r = of_int \<lfloor>r\<rfloor> \<and> \<bar>r\<bar> < 10 ^ 21 then show_int \<lfloor>r\<rfloor> else nd r)"

text \<open>\<open>QuoteJSONString\<close>: the escapes of a JSON string literal.\<close>

definition hex_digit :: "nat \<Rightarrow> char" where
  "hex_digit n = (if n < 10 then char_of (48 + n) else char_of (87 + n))"

definition json_escape :: "char \<Rightarrow> string" where
  "json_escape c =
     (if c = CHR 0x22 then [CHR 0x5C, CHR 0x22]
      else if c = CHR 0x5C then [CHR 0x5C, CHR 0x5C]
      else if c = CHR 0x08 then [CHR 0x5C, CHR ''b'']
      else if c = CHR 0x0C then [CHR 0x5C, CHR ''f'']
      else if c = CHR 0x0A then [CHR 0x5C, CHR ''n'']
      else if c = CHR 0x0D then [CHR 0x5C, CHR ''r'']
      else if c = CHR 0x09 then [CHR 0x5C, CHR ''t'']
      else if (of_char c :: nat) < 32
        then [CHR 0x5C, CHR ''u'', CHR ''0'', CHR ''0'',
              hex_digit (of_char c div 16), hex_digit (of_char c mod 16)]
      else [c])"

definition json_quote :: "string \<Rightarrow> string" where
  "json_quote s = CHR 0x22 # concat (map json_escape s) @ [CHR 0x22]"

fun join_comma :: "string list \<Rightarrow> string" where
  "join_comma [] = []"
| "join_comma [x] = x"
| "join_comma (x # y # ys) = x @ CHR '','' # join_comma (y # ys)"

text \<open>
  \<open>JSON.stringify\<close>.  A property whose value is \<open>undefined\<close> is left out of an
  object; \<open>undefined\<close> inside an array, and the non-finite numbers, print as
  \<open>null\<close>.  At the top level \<open>JSON.stringify(undefined)\<close> is \<open>undefined\<close>, which
  the template literal of a cache key prints as the word itself.
\<close>

fun JSON_stringify :: "(real \<Rightarrow> string) \<Rightarrow> jsval \<Rightarrow> string"
  and stringify_elems :: "(real \<Rightarrow> string) \<Rightarrow> jsval list \<Rightarrow> string list"
  and stringify_props :: "(real \<Rightarrow> string) \<Rightarrow> (string \<times> jsval) list \<Rightarrow> string list"
where
  "JSON_stringify nd JUndefined = ''undefined''"
| "JSON_stringify nd JNull = ''null''"
| "JSON_stringify nd (JBool b) = (if b then ''true'' else ''false'')"
| "JSON_stringify nd (JNum r) = Number_toString nd r"
| "JSON_stringify nd JNaN = ''null''"
| "JSON_stringify nd JInfinity = ''null''"
| "JSON_stringify nd (JStr s) = json_quote s"
| "JSON_stringify nd (JArr xs) = CHR ''['' # join_comma (stringify_elems nd xs) @ '']''"
| "JSON_stringify nd (JObj ps) = CHR ''{'' # join_comma (stringify_props nd ps) @ ''}''"
| "stringify_elems nd [] = []"
| "stringify_elems nd (x # xs) =
     (if x = JUndefined then ''null'' else JSON_stringify nd x) # stringify_elems nd xs"
| "stringify_props nd [] = []"
| "stringify_props nd ((k, v) # ps) =
     (if v = JUndefined then stringify_props nd ps
      else (json_quote k @ CHR '':'' # JSON_stringify nd v) # stringify_props nd ps)"

text \<open>Property read \<open>o.k\<close> (\<open>undefined\<close> when absent or when \<open>o\<close> is no object).\<close>

definition js_get :: "jsval \<Rightarrow> string \<Rightarrow> jsval" where
  "js_get v k =
     (case v of
        JObj ps \<Rightarrow> (case map_of ps k of Some x \<Rightarrow> x | None \<Rightarrow> JUndefined)
      | _ \<Rightarrow> JUndefined)"

text \<open>
  Property write \<open>o[k] = v\<close> on a property list: an existing property keeps its
  place, a new one goes last.
\<close>

fun props_set :: "(string \<times> jsval) list \<Rightarrow> string \<Rightarrow> jsval \<Rightarrow> (string \<times> jsval) list" where
  "props_set [] k v = [(k, v)]"
| "props_set ((k', v') # ps) k v =
     (if k' = k then (k, v) # ps else (k', v') # props_set ps k v)"

text \<open>
  The own enumerable properties that an object spread \<open>{...v}\<close> copies: those of an
  object; the indexed elements of an array and the indexed characters of a string;
  nothing for any other value.
\<close>

fun indexed :: "nat \<Rightarrow> jsval list \<Rightarrow> (string \<times> jsval) list" where
  "indexed i [] = []"
| "indexed i (x # xs) = (show_nat i, x) # indexed (Suc i) xs"

definition spread_props :: "jsval \<Rightarrow> (string \<times> jsval) list" where
  "spread_props v =
     (case v of
        JObj ps \<Rightarrow> ps
      | JArr xs \<Rightarrow> indexed 0 xs
      | JStr s \<Rightarrow> indexed 0 (map (\<lambda>c. JStr [c]) s)
      | _ \<Rightarrow> [])"

text \<open>Truthiness of a value, as an \<open>if\<close> or \<open>||\<close> tests it.\<close>

definition truthy :: "jsval \<Rightarrow> bool" where
  "truthy v =
     (case v of
        JUndefined \<Rightarrow> False
      | JNull \<Rightarrow> False
      | JBool b \<Rightarrow> b
      | JNum r \<Rightarrow> r \<noteq> 0
      | JNaN \<Rightarrow> False
      | JStr s \<Rightarrow> s \<noteq> []
      | _ \<Rightarrow> True)"

section \<open>The cache gateway (redis.ts)\<close>

text \<open>
  The Redis server is a list of keys with their payload and remaining time to live
  (\<open>None\<close>: no expiry).  The passing of time is not modelled: an entry stays until it
  is deleted.  \<open>server_up\<close> says whether the server answers; \<open>client\<close> and
  \<open>isConnected\<close> are the two fields of \<open>RedisService\<close>.
\<close>

record cache_entry =
  payload :: string
  ttl :: "nat option"

record redis =
  server_up :: bool
  client :: bool
  isConnected :: bool
  entries :: "(string \<times> cache_entry) list"

text \<open>
  \<open>connect\<close>: reuse the client when connected; otherwise create one and connect.  The
  flag is \<open>False\<close> when the call throws (after clearing both fields).
\<close>

definition connect :: "redis \<Rightarrow> bool \<times> redis" where
  "connect r =
     (if isConnected r \<and> client r then (True, r)
      else if server_up r then (True, r\<lparr>client := True, isConnected := True\<rparr>)
      else (False, r\<lparr>client := False, isConnected := False\<rparr>))"

text \<open>
  Redis glob patterns, as far as \<open>KEYS\<close> is used here: \<open>*\<close> matches any run of
  characters, \<open>?\<close> any one character, every other character itself (the two
  patterns of the service contain no bracket class and no escape).
\<close>

fun glob_match :: "string \<Rightarrow> string \<Rightarrow> bool" where
  "glob_match [] s = (s = [])"
| "glob_match (c # p) [] = (c = CHR ''*'' \<and> glob_match p [])"
| "glob_match (c # p) (x # s) =
     (if c = CHR ''*'' then glob_match p (x # s) \<or> glob_match (c # p) s
      else (c = CHR ''?'' \<or> c = x) \<and> glob_match p s)"

text \<open>The commands of the Redis client on the server's entries.\<close>

definition client_get :: "(string \<times> cache_entry) list \<Rightarrow> string \<Rightarrow> string option" where
  "client_get es key = map_option payload (map_of es key)"

definition client_del :: "(string \<times> cache_entry) list \<Rightarrow> string list \<Rightarrow> (string \<times> cache_entry) list" where
  "client_del es ks = filter (\<lambda>(k, e). k \<notin> set ks) es"

definition client_set :: "(string \<times> cache_entry) list \<Rightarrow> string \<Rightarrow> string \<Rightarrow> (string \<times> cache_entry) list" where
  "client_set es key v = (key, \<lparr>payload = v, ttl = None\<rparr>) # client_del es [key]"

definition client_setEx :: "(string \<times> cache_entry) list \<Rightarrow> string \<Rightarrow> nat \<Rightarrow> string \<Rightarrow> (string \<times> cache_entry) list" where
  "client_setEx es key n v = (key, \<lparr>payload = v, ttl = Some n\<rparr>) # client_del es [key]"


definition client_keys :: "(string \<times> cache_entry) list \<Rightarrow> string \<Rightarrow> string list" where
  "client_keys es pattern = filter (glob_match pattern) (map fst es)"

text \<open>
  The five operations of \<open>RedisService\<close>.  Each wraps \<open>connect\<close> and one or two
  client commands in \<open>try\<close>/\<open>catch\<close>; a command throws when the server does not
  answer.  The \<open>catch\<close> branch is the \<open>None\<close> or \<open>False\<close> result.
\<close>

definition redis_get :: "redis \<Rightarrow> string \<Rightarrow> string option \<times> redis" where
  "redis_get r key =
     (case connect r of
        (False, r') \<Rightarrow> (None, r')
      | (True, r') \<Rightarrow>
          if server_up r' then (client_get (entries r') key, r') else (None, r'))"

definition redis_set :: "redis \<Rightarrow> string \<Rightarrow> string \<Rightarrow> nat option \<Rightarrow> bool \<times> redis" where
  "redis_set r key v expireInSeconds =
     (case connect r of
        (False, r') \<Rightarrow> (False, r')
      | (True, r') \<Rightarrow>
          if server_up r' then
            (case expireInSeconds of
               Some n \<Rightarrow>
                 if n \<noteq> 0 then (True, r'\<lparr>entries := client_setEx (entries r') key n v\<rparr>)
                 else (True, r'\<lparr>entries := client_set (entries r') key v\<rparr>)
             | None \<Rightarrow> (True, r'\<lparr>entries := client_set (entries r') key v\<rparr>))
          else (False, r'))"

definition redis_del :: "redis \<Rightarrow> string \<Rightarrow> bool \<times> redis" where
  "redis_del r key =
     (case connect r of
        (False, r') \<Rightarrow> (False, r')
      | (True, r') \<Rightarrow>
          if server_up r' then (True, r'\<lparr>entries := client_del (entries r') [key]\<rparr>)
          else (False, r'))"


definition redis_flushPattern :: "redis \<Rightarrow> string \<Rightarrow> bool \<times> redis" where
  "redis_flushPattern r pattern =
     (case connect r of
        (False, r') \<Rightarrow> (False, r')
      | (True, r') \<Rightarrow>
          if server_up r' then
            (let keys = client_keys (entries r') pattern in
             if length keys > 0 then (True, r'\<lparr>entries := client_del (entries r') keys\<rparr>)
             else (True, r'))
          else (False, r'))"

section \<open>The course collection (models/Course.ts)\<close>

text \<open>
  A stored course has the nine fields of \<open>ICourseData\<close> that the schema declares.
  The identifier and version that the database assigns and the two timestamps are not
  modelled; no operation of the service reads them.
\<close>

record course =
  course_id :: string
  title :: string
  description :: string
  category :: string
  instructor :: string
  duration :: string
  price :: string
  rating :: real
  skill_level :: string

text \<open>\<open>Partial<ICourse>\<close>: every field may be absent.\<close>

record course_partial =
  p_course_id :: "string option"
  p_title :: "string option"
  p_description :: "string option"
  p_category :: "string option"
  p_instructor :: "string option"
  p_duration :: "string option"
  p_price :: "string option"
  p_rating :: "real option"
  p_skill_level :: "string option"

text \<open>The plain object that \<open>lean()\<close> returns for a stored course.\<close>

definition lean :: "course \<Rightarrow> jsval" where
  "lean c = JObj
     [(''course_id'', JStr (course_id c)), (''title'', JStr (title c)),
      (''description'', JStr (description c)), (''category'', JStr (category c)),
      (''instructor'', JStr (instructor c)), (''duration'', JStr (duration c)),
      (''price'', JStr (price c)), (''rating'', JNum (rating c)),
      (''skill_level'', JStr (skill_level c))]"

text \<open>
  The validators of \<open>CourseSchema\<close>: every path is required (for a string path that
  excludes the empty string); \<open>rating\<close> has \<open>min: 0\<close> and \<open>max: 5\<close>;
  \<open>skill_level\<close> is one of three words.
\<close>

definition skill_levels :: "string list" where
  "skill_levels = [''beginner'', ''intermediate'', ''advanced'']"

definition required_string :: "string option \<Rightarrow> bool" where
  "required_string v = (case v of None \<Rightarrow> False | Some s \<Rightarrow> s \<noteq> [])"

definition rating_min_max :: "real \<Rightarrow> bool" where
  "rating_min_max r = (0 \<le> r \<and> r \<le> 5)"

text \<open>Validation of a new document: all paths.\<close>

definition document_valid :: "course_partial \<Rightarrow> bool" where
  "document_valid p =
     (required_string (p_course_id p) \<and> required_string (p_title p) \<and>
      required_string (p_description p) \<and> required_string (p_category p) \<and>
      required_string (p_instructor p) \<and> required_string (p_duration p) \<and>
      required_string (p_price p) \<and>
      (case p_rating p of None \<Rightarrow> False | Some r \<Rightarrow> rating_min_max r) \<and>
      (case p_skill_level p of None \<Rightarrow> False | Some s \<Rightarrow> s \<in> set skill_levels))"

text \<open>Update validators (\<open>runValidators: true\<close>): only the paths the update sets.\<close>

definition updated_string_valid :: "string option \<Rightarrow> bool" where
  "updated_string_valid v = (case v of None \<Rightarrow> True | Some s \<Rightarrow> s \<noteq> [])"

definition update_valid :: "course_partial \<Rightarrow> bool" where
  "update_valid p =
     (updated_string_valid (p_course_id p) \<and> updated_string_valid (p_title p) \<and>
      updated_string_valid (p_description p) \<and> updated_string_valid (p_category p) \<and>
      updated_string_valid (p_instructor p) \<and> updated_string_valid (p_duration p) \<and>
      updated_string_valid (p_price p) \<and>
      (case p_rating p of None \<Rightarrow> True | Some r \<Rightarrow> rating_min_max r) \<and>
      (case p_skill_level p of None \<Rightarrow> True | Some s \<Rightarrow> s \<in> set skill_levels))"

definition or_else :: "'a option \<Rightarrow> 'a \<Rightarrow> 'a" where
  "or_else v d = (case v of None \<Rightarrow> d | Some x \<Rightarrow> x)"

text \<open>The document that \<open>new Course(data)\<close> holds once \<open>data\<close> has passed validation.\<close>

definition course_of :: "course_partial \<Rightarrow> course" where
  "course_of p =
     \<lparr>course_id = or_else (p_course_id p) [], title = or_else (p_title p) [],
      description = or_else (p_description p) [], category = or_else (p_category p) [],
      instructor = or_else (p_instructor p) [], duration = or_else (p_duration p) [],
      price = or_else (p_price p) [], rating = or_else (p_rating p) 0,
      skill_level = or_else (p_skill_level p) []\<rparr>"

definition new_document :: "course_partial \<Rightarrow> course option" where
  "new_document p = (if document_valid p then Some (course_of p) else None)"

text \<open>The effect of a plain update object: every field it has replaces the stored one.\<close>

definition apply_update :: "course_partial \<Rightarrow> course \<Rightarrow> course" where
  "apply_update p c =
     \<lparr>course_id = or_else (p_course_id p) (course_id c), title = or_else (p_title p) (title c),
      description = or_else (p_description p) (description c),
      category = or_else (p_category p) (category c),
      instructor = or_else (p_instructor p) (instructor c),
      duration = or_else (p_duration p) (duration c), price = or_else (p_price p) (price c),
      rating = or_else (p_rating p) (rating c),
      skill_level = or_else (p_skill_level p) (skill_level c)\<rparr>"

text \<open>
  The database: whether it can be reached (\<open>dbConnect\<close> and every query throw when it
  cannot) and the documents of the collection in insertion order.  \<open>course_id\<close>
  carries a unique index.
\<close>

datatype failure = StoreUnavailable | ValidationError | DuplicateKey | QueryFailed | SyntaxError

record store =
  db_up :: bool
  docs :: "course list"

definition has_id :: "string \<Rightarrow> course \<Rightarrow> bool" where
  "has_id cid c = (course_id c = cid)"

definition stored_ids :: "course list \<Rightarrow> string list" where
  "stored_ids ds = map course_id ds"

definition findOne :: "store \<Rightarrow> string \<Rightarrow> failure + course option" where
  "findOne st cid = (if db_up st then Inr (find (has_id cid) (docs st)) else Inl StoreUnavailable)"

fun replace_first :: "('a \<Rightarrow> bool) \<Rightarrow> 'a \<Rightarrow> 'a list \<Rightarrow> 'a list" where
  "replace_first P y [] = []"
| "replace_first P y (x # xs) = (if P x then y # xs else x # replace_first P y xs)"

fun remove_first :: "('a \<Rightarrow> bool) \<Rightarrow> 'a list \<Rightarrow> 'a list" where
  "remove_first P [] = []"
| "remove_first P (x # xs) = (if P x then xs else x # remove_first P xs)"

text \<open>
  \<open>findOneAndUpdate(filter, update, {new: true, runValidators: true})\<close>: the update
  validators run before the command is sent; the command changes the first match and
  returns the document after the change, or \<open>null\<close> when nothing matches.  Moving
  a document onto a \<open>course_id\<close> that another one holds violates the unique index.
\<close>

definition findOneAndUpdate :: "store \<Rightarrow> string \<Rightarrow> course_partial \<Rightarrow> (failure + course option) \<times> store" where
  "findOneAndUpdate st cid upd =
     (if \<not> db_up st then (Inl StoreUnavailable, st)
      else if \<not> update_valid upd then (Inl ValidationError, st)
      else
        (case find (has_id cid) (docs st) of
           None \<Rightarrow> (Inr None, st)
         | Some c \<Rightarrow>
             (let c' = apply_update upd c in
              if course_id c' \<noteq> cid \<and> course_id c' \<in> set (stored_ids (docs st))
              then (Inl DuplicateKey, st)
              else (Inr (Some c'), st\<lparr>docs := replace_first (has_id cid) c' (docs st)\<rparr>))))"

definition findOneAndDelete :: "store \<Rightarrow> string \<Rightarrow> (failure + course option) \<times> store" where
  "findOneAndDelete st cid =
     (if \<not> db_up st then (Inl StoreUnavailable, st)
      else
        (case find (has_id cid) (docs st) of
           None \<Rightarrow> (Inr None, st)
         | Some c \<Rightarrow> (Inr (Some c), st\<lparr>docs := remove_first (has_id cid) (docs st)\<rparr>)))"

text \<open>\<open>new Course(data).save()\<close>.\<close>

definition save :: "store \<Rightarrow> course_partial \<Rightarrow> (failure + course) \<times> store" where
  "save st p =
     (if \<not> db_up st then (Inl StoreUnavailable, st)
      else
        (case new_document p of
           None \<Rightarrow> (Inl ValidationError, st)
         | Some c \<Rightarrow>
             if course_id c \<in> set (stored_ids (docs st)) then (Inl DuplicateKey, st)
             else (Inr c, st\<lparr>docs := docs st @ [c]\<rparr>)))"





section \<open>What the service takes from outside\<close>

text \<open>
  The query engine of the database (text search, regular expressions, sorting,
  grouping), \<open>JSON.parse\<close>, the \<open>RegExp\<close> constructor and the digits of a
  non-integer number are not part of the repository.  The service is modelled for
  every choice of them.  A query works on the documents of the collection and may fail.
\<close>

record mongo_query =
  q_text :: "string option"
  q_category_regex :: "string option"
  q_category :: "string option"
  q_skill_level :: "string option"
  q_rating_gte :: "real option"

definition empty_query :: mongo_query where
  "empty_query = \<lparr>q_text = None, q_category_regex = None, q_category = None,
                   q_skill_level = None, q_rating_gte = None\<rparr>"

datatype sort_spec = TextScoreThenRating | RatingDescending | CreatedAtDescending

datatype group_stage = GroupCount string | GroupAverage string

record env =
  number_digits :: "real \<Rightarrow> string"
  JSON_parse :: "string \<Rightarrow> jsval option"
  RegExp_valid :: "string \<Rightarrow> bool"
  course_find :: "mongo_query \<Rightarrow> sort_spec \<Rightarrow> real \<Rightarrow> real \<Rightarrow> course list \<Rightarrow> failure + course list"
  course_count :: "mongo_query \<Rightarrow> course list \<Rightarrow> failure + nat"
  course_aggregate :: "group_stage \<Rightarrow> course list \<Rightarrow> failure + jsval list"
  error_message :: "failure \<Rightarrow> string"

section \<open>The course service (course-service.ts)\<close>

text \<open>
  \<open>CourseSearchOptions\<close>: the properties that the caller's object has, in the order
  in which the caller put them there.  An object has each property at most once.
\<close>

datatype skill_filter = SkBeginner | SkIntermediate | SkAdvanced | SkAll

datatype search_field =
    OptQuery string
  | OptCategory string
  | OptSkillLevel skill_filter
  | OptMinRating real
  | OptPage real
  | OptLimit real

type_synonym CourseSearchOptions = "search_field list"

definition skill_name :: "skill_filter \<Rightarrow> string" where
  "skill_name k =
     (case k of SkBeginner \<Rightarrow> ''beginner'' | SkIntermediate \<Rightarrow> ''intermediate''
      | SkAdvanced \<Rightarrow> ''advanced'' | SkAll \<Rightarrow> ''all'')"

definition field_prop :: "search_field \<Rightarrow> string \<times> jsval" where
  "field_prop f =
     (case f of
        OptQuery q \<Rightarrow> (''query'', JStr q)
      | OptCategory c \<Rightarrow> (''category'', JStr c)
      | OptSkillLevel k \<Rightarrow> (''skillLevel'', JStr (skill_name k))
      | OptMinRating r \<Rightarrow> (''minRating'', JNum r)
      | OptPage n \<Rightarrow> (''page'', JNum n)
      | OptLimit n \<Rightarrow> (''limit'', JNum n))"

definition options_object :: "CourseSearchOptions \<Rightarrow> jsval" where
  "options_object options = JObj (map field_prop options)"

text \<open>Reading one property of the options (\<open>None\<close>: \<open>undefined\<close>).\<close>

fun get_query :: "CourseSearchOptions \<Rightarrow> string option" where
  "get_query [] = None"
| "get_query (f # fs) = (case f of OptQuery q \<Rightarrow> Some q | _ \<Rightarrow> get_query fs)"

fun get_category :: "CourseSearchOptions \<Rightarrow> string option" where
  "get_category [] = None"
| "get_category (f # fs) = (case f of OptCategory c \<Rightarrow> Some c | _ \<Rightarrow> get_category fs)"

fun get_skillLevel :: "CourseSearchOptions \<Rightarrow> skill_filter option" where
  "get_skillLevel [] = None"
| "get_skillLevel (f # fs) = (case f of OptSkillLevel k \<Rightarrow> Some k | _ \<Rightarrow> get_skillLevel fs)"

fun get_minRating :: "CourseSearchOptions \<Rightarrow> real option" where
  "get_minRating [] = None"
| "get_minRating (f # fs) = (case f of OptMinRating r \<Rightarrow> Some r | _ \<Rightarrow> get_minRating fs)"

fun get_page :: "CourseSearchOptions \<Rightarrow> real option" where
  "get_page [] = None"
| "get_page (f # fs) = (case f of OptPage n \<Rightarrow> Some n | _ \<Rightarrow> get_page fs)"

fun get_limit :: "CourseSearchOptions \<Rightarrow> real option" where
  "get_limit [] = None"
| "get_limit (f # fs) = (case f of OptLimit n \<Rightarrow> Some n | _ \<Rightarrow> get_limit fs)"

text \<open>The three entries of \<open>CACHE_TTL\<close>, and the literal of \<open>getCourseStats\<close>.\<close>

definition CACHE_TTL_COURSE_DETAIL :: nat where "CACHE_TTL_COURSE_DETAIL = 1800"
definition CACHE_TTL_SEARCH_RESULTS :: nat where "CACHE_TTL_SEARCH_RESULTS = 600"
definition CACHE_TTL_COURSE_LIST :: nat where "CACHE_TTL_COURSE_LIST = 300"

text \<open>\<open>if (cachedResult)\<close>: a string was found and it is not empty.\<close>

definition cache_hit :: "string option \<Rightarrow> string option" where
  "cache_hit c = (case c of None \<Rightarrow> None | Some s \<Rightarrow> if s = [] then None else Some s)"

text \<open>\<open>Math.ceil(totalCount / limit)\<close>, with the two outcomes of dividing by zero.\<close>

definition ceil_div :: "nat \<Rightarrow> real \<Rightarrow> jsval" where
  "ceil_div totalCount limit =
     (if limit = 0 then (if totalCount = 0 then JNaN else JInfinity)
      else JNum (of_int \<lceil>real totalCount / limit\<rceil>))"

text \<open>The filter that \<open>searchCourses\<close> builds from the destructured options.\<close>

definition search_query :: "string \<Rightarrow> string option \<Rightarrow> skill_filter option \<Rightarrow> real option \<Rightarrow> mongo_query" where
  "search_query query categoryOpt skillLevel minRating =
     \<lparr>q_text = (if query \<noteq> [] then Some query else None),
      q_category_regex =
        (case categoryOpt of None \<Rightarrow> None
         | Some c \<Rightarrow> if c \<noteq> [] \<and> c \<noteq> ''all'' then Some c else None),
      q_category = None,
      q_skill_level =
        (case skillLevel of None \<Rightarrow> None
         | Some k \<Rightarrow> if k \<noteq> SkAll then Some (skill_name k) else None),
      q_rating_gte = minRating\<rparr>"

definition search_result :: "course list \<Rightarrow> nat \<Rightarrow> real \<Rightarrow> real \<Rightarrow> jsval" where
  "search_result courses totalCount page limit =
     JObj [(''courses'', JArr (map lean courses)),
           (''totalCount'', JNum (real totalCount)),
           (''pagination'', JObj [(''currentPage'', JNum page),
                                  (''totalPages'', ceil_div totalCount limit),
                                  (''hasNext'', JBool (page * limit < real totalCount)),
                                  (''hasPrev'', JBool (page > 1))]),
           (''cached'', JBool False)]"

text \<open>
  \<open>searchCourses\<close>.  The result is what the call returns or the failure it throws,
  with the cache as the call leaves it.
\<close>

definition searchCourses :: "env \<Rightarrow> store \<Rightarrow> redis \<Rightarrow> CourseSearchOptions \<Rightarrow> (failure + jsval) \<times> redis" where
  "searchCourses e st r options =
     (if \<not> db_up st then (Inl StoreUnavailable, r)
      else
        (let query = or_else (get_query options) [];
             categoryOpt = get_category options;
             skillLevel = get_skillLevel options;
             minRating = get_minRating options;
             page = or_else (get_page options) 1;
             limit = or_else (get_limit options) 20;
             cacheKey = ''search:'' @ JSON_stringify (number_digits e) (options_object options)
         in case redis_get r cacheKey of
           (cachedResult, r1) \<Rightarrow>
             (case cache_hit cachedResult of
                Some text \<Rightarrow>
                  (case JSON_parse e text of
                     None \<Rightarrow> (Inl SyntaxError, r1)
                   | Some v \<Rightarrow> (Inr (JObj (props_set (spread_props v) ''cached'' (JBool True))), r1))
              | None \<Rightarrow>
                  (let mongoQuery = search_query query categoryOpt skillLevel minRating in
                   if (case q_category_regex mongoQuery of None \<Rightarrow> False
                       | Some c \<Rightarrow> \<not> RegExp_valid e c)
                   then (Inl SyntaxError, r1)
                   else
                     (let skip = (page - 1) * limit;
                          sortCriteria =
                            (if query \<noteq> [] then TextScoreThenRating else RatingDescending)
                      in case course_find e mongoQuery sortCriteria skip limit (docs st) of
                        Inl f \<Rightarrow> (Inl f, r1)
                      | Inr courses \<Rightarrow>
                          (case course_count e mongoQuery (docs st) of
                             Inl f \<Rightarrow> (Inl f, r1)
                           | Inr totalCount \<Rightarrow>
                               (let result = search_result courses totalCount page limit in
                                case redis_set r1 cacheKey
                                       (JSON_stringify (number_digits e) result)
                                       (Some CACHE_TTL_SEARCH_RESULTS) of
                                  (ok, r2) \<Rightarrow> (Inr result, r2))))))))"

definition getCourseById :: "env \<Rightarrow> store \<Rightarrow> redis \<Rightarrow> string \<Rightarrow> (failure + jsval) \<times> redis" where
  "getCourseById e st r courseId =
     (if \<not> db_up st then (Inl StoreUnavailable, r)
      else
        (let cacheKey = ''course:'' @ courseId
         in case redis_get r cacheKey of
           (cachedCourse, r1) \<Rightarrow>
             (case cache_hit cachedCourse of
                Some text \<Rightarrow>
                  (case JSON_parse e text of
                     None \<Rightarrow> (Inl SyntaxError, r1)
                   | Some v \<Rightarrow> (Inr v, r1))
              | None \<Rightarrow>
                  (case findOne st courseId of
                     Inl f \<Rightarrow> (Inl f, r1)
                   | Inr None \<Rightarrow> (Inr JNull, r1)
                   | Inr (Some course) \<Rightarrow>
                       (case redis_set r1 cacheKey
                              (JSON_stringify (number_digits e) (lean course))
                              (Some CACHE_TTL_COURSE_DETAIL) of
                          (ok, r2) \<Rightarrow> (Inr (lean course), r2))))))"

definition invalidateSearchCaches :: "redis \<Rightarrow> redis" where
  "invalidateSearchCaches r =
     (case redis_flushPattern r ''search:*'' of
        (ok1, r1) \<Rightarrow>
          (case redis_flushPattern r1 ''courses:*'' of
             (ok2, r2) \<Rightarrow>
               (case redis_del r2 ''course:stats'' of
                  (ok3, r3) \<Rightarrow> r3)))"

definition createCourse :: "store \<Rightarrow> redis \<Rightarrow> course_partial \<Rightarrow> (failure + course) \<times> store \<times> redis" where
  "createCourse st r courseData =
     (if \<not> db_up st then (Inl StoreUnavailable, st, r)
      else
        (case save st courseData of
           (Inl f, st') \<Rightarrow> (Inl f, st', r)
         | (Inr savedCourse, st') \<Rightarrow> (Inr savedCourse, st', invalidateSearchCaches r)))"

definition updateCourse :: "store \<Rightarrow> redis \<Rightarrow> string \<Rightarrow> course_partial \<Rightarrow> (failure + course option) \<times> store \<times> redis" where
  "updateCourse st r courseId updateData =
     (if \<not> db_up st then (Inl StoreUnavailable, st, r)
      else
        (case findOneAndUpdate st courseId updateData of
           (Inl f, st') \<Rightarrow> (Inl f, st', r)
         | (Inr None, st') \<Rightarrow> (Inr None, st', r)
         | (Inr (Some updatedCourse), st') \<Rightarrow>
             (case redis_del r (''course:'' @ courseId) of
                (ok, r1) \<Rightarrow> (Inr (Some updatedCourse), st', invalidateSearchCaches r1))))"

definition deleteCourse :: "store \<Rightarrow> redis \<Rightarrow> string \<Rightarrow> (failure + bool) \<times> store \<times> redis" where
  "deleteCourse st r courseId =
     (if \<not> db_up st then (Inl StoreUnavailable, st, r)
      else
        (case findOneAndDelete st courseId of
           (Inl f, st') \<Rightarrow> (Inl f, st', r)
         | (Inr None, st') \<Rightarrow> (Inr False, st', r)
         | (Inr (Some result), st') \<Rightarrow>
             (case redis_del r (''course:'' @ courseId) of
                (ok, r1) \<Rightarrow> (Inr True, st', invalidateSearchCaches r1))))"



text \<open>
  \<open>getCourseStats\<close>.  The two reductions write \<open>acc[item._id] = item.count\<close>;
  a property name is the string of the group's \<open>_id\<close>.
\<close>

definition property_key :: "(real \<Rightarrow> string) \<Rightarrow> jsval \<Rightarrow> string" where
  "property_key nd v =
     (case v of
        JStr s \<Rightarrow> s
      | JNum r \<Rightarrow> Number_toString nd r
      | JNaN \<Rightarrow> ''NaN''
      | JInfinity \<Rightarrow> ''Infinity''
      | JBool b \<Rightarrow> (if b then ''true'' else ''false'')
      | JNull \<Rightarrow> ''null''
      | JUndefined \<Rightarrow> ''undefined''
      | JArr xs \<Rightarrow> JSON_stringify nd (JArr xs)
      | JObj ps \<Rightarrow> ''[object Object]'')"

definition count_by_id :: "(real \<Rightarrow> string) \<Rightarrow> jsval list \<Rightarrow> jsval" where
  "count_by_id nd items =
     JObj (foldl (\<lambda>acc item. props_set acc (property_key nd (js_get item ''_id'')) (js_get item ''count''))
                 [] items)"

definition first_avgRating :: "jsval list \<Rightarrow> jsval" where
  "first_avgRating avgRating =
     (let v = (case avgRating of [] \<Rightarrow> JUndefined | x # xs \<Rightarrow> js_get x ''avgRating'')
      in if truthy v then v else JNum 0)"

definition getCourseStats :: "env \<Rightarrow> store \<Rightarrow> redis \<Rightarrow> (failure + jsval) \<times> redis" where
  "getCourseStats e st r =
     (if \<not> db_up st then (Inl StoreUnavailable, r)
      else
        (let cacheKey = ''course:stats''
         in case redis_get r cacheKey of
           (cachedStats, r1) \<Rightarrow>
             (case cache_hit cachedStats of
                Some text \<Rightarrow>
                  (case JSON_parse e text of
                     None \<Rightarrow> (Inl SyntaxError, r1)
                   | Some v \<Rightarrow> (Inr v, r1))
              | None \<Rightarrow>
                  (case course_count e empty_query (docs st) of
                     Inl f \<Rightarrow> (Inl f, r1)
                   | Inr totalCourses \<Rightarrow>
                  (case course_aggregate e (GroupCount ''category'') (docs st) of
                     Inl f \<Rightarrow> (Inl f, r1)
                   | Inr categoryStats \<Rightarrow>
                  (case course_aggregate e (GroupCount ''skill_level'') (docs st) of
                     Inl f \<Rightarrow> (Inl f, r1)
                   | Inr skillLevelStats \<Rightarrow>
                  (case course_aggregate e (GroupAverage ''rating'') (docs st) of
                     Inl f \<Rightarrow> (Inl f, r1)
                   | Inr avgRating \<Rightarrow>
                       (let stats = JObj
                              [(''totalCourses'', JNum (real totalCourses)),
                               (''categoriesCount'', count_by_id (number_digits e) categoryStats),
                               (''skillLevelCount'', count_by_id (number_digits e) skillLevelStats),
                               (''averageRating'', first_avgRating avgRating)]
                        in case redis_set r1 cacheKey
                                 (JSON_stringify (number_digits e) stats) (Some 900) of
                          (ok, r2) \<Rightarrow> (Inr stats, r2)))))))))"

section \<open>Validation (validation.ts and the CSV validator)\<close>

text \<open>
  \<open>CourseCreateSchema\<close> and its \<open>partial()\<close>, \<open>CourseUpdateSchema\<close>, on a
  request body whose fields have the right JavaScript types.  An issue is a path and
  a message; the checks of one field all run, in the order of the schema.  Where the
  schema gives no message the library's own is used.
\<close>

type_synonym issue = "string \<times> string"

definition zod_string :: "bool \<Rightarrow> string \<Rightarrow> nat \<Rightarrow> string \<Rightarrow> (nat \<times> string) option \<Rightarrow> string option \<Rightarrow> issue list" where
  "zod_string partial path lo lo_message hi v =
     (case v of
        None \<Rightarrow> (if partial then [] else [(path, ''Required'')])
      | Some s \<Rightarrow>
          (if length s < lo then [(path, lo_message)] else []) @
          (case hi of
             None \<Rightarrow> []
           | Some (n, hi_message) \<Rightarrow> if n < length s then [(path, hi_message)] else []))"

definition zod_rating :: "bool \<Rightarrow> real option \<Rightarrow> issue list" where
  "zod_rating partial v =
     (case v of
        None \<Rightarrow> (if partial then [] else [(''rating'', ''Required'')])
      | Some r \<Rightarrow>
          (if r < 0 then [(''rating'', ''Number must be greater than or equal to 0'')] else []) @
          (if 5 < r then [(''rating'', ''Rating must be between 0 and 5'')] else []))"

definition quoted :: "string \<Rightarrow> string" where
  "quoted s = CHR 0x27 # s @ [CHR 0x27]"

definition zod_skill_level :: "bool \<Rightarrow> string option \<Rightarrow> issue list" where
  "zod_skill_level partial v =
     (case v of
        None \<Rightarrow> (if partial then [] else [(''skill_level'', ''Required'')])
      | Some s \<Rightarrow>
          if s \<in> set skill_levels then []
          else [(''skill_level'',
                 ''Invalid enum value. Expected '' @ quoted ''beginner'' @ '' | '' @
                 quoted ''intermediate'' @ '' | '' @ quoted ''advanced'' @ '', received '' @
                 quoted s)])"

definition course_schema :: "bool \<Rightarrow> course_partial \<Rightarrow> issue list" where
  "course_schema partial d =
     zod_string partial ''course_id'' 1 ''Course ID is required'' None (p_course_id d) @
     zod_string partial ''title'' 1 ''Title is required'' (Some (200, ''Title too long'')) (p_title d) @
     zod_string partial ''description'' 10 ''Description must be at least 10 characters'' None
       (p_description d) @
     zod_string partial ''category'' 1 ''Category is required'' None (p_category d) @
     zod_string partial ''instructor'' 1 ''Instructor is required'' None (p_instructor d) @
     zod_string partial ''duration'' 1 ''Duration is required'' None (p_duration d) @
     zod_string partial ''price'' 1 ''Price is required'' None (p_price d) @
     zod_rating partial (p_rating d) @
     zod_skill_level partial (p_skill_level d)"

definition CourseCreateSchema :: "course_partial \<Rightarrow> issue list" where
  "CourseCreateSchema = course_schema False"

definition CourseUpdateSchema :: "course_partial \<Rightarrow> issue list" where
  "CourseUpdateSchema = course_schema True"

text \<open>\<open>validateRequest\<close>: the data, or one line per issue.\<close>

definition validateRequest :: "('a \<Rightarrow> issue list) \<Rightarrow> 'a \<Rightarrow> string list + 'a" where
  "validateRequest schema d =
     (case schema d of
        [] \<Rightarrow> Inr d
      | i # is \<Rightarrow> Inl (map (\<lambda>(path, message). path @ '': '' @ message) (i # is)))"

text \<open>
  \<open>validateCourseData\<close> on a row of the CSV file.  \<open>parseFloat\<close> is JavaScript's;
  \<open>None\<close> is its \<open>NaN\<close>.
\<close>

record CSVCourseData =
  csv_course_id :: string
  csv_title :: string
  csv_description :: string
  csv_category :: string
  csv_instructor :: string
  csv_duration :: string
  csv_price :: string
  csv_rating :: string
  csv_skill_level :: string

definition rating_message :: string where
  "rating_message = ''rating must be a number between 0 and 5''"

definition validateCourseData :: "(string \<Rightarrow> real option) \<Rightarrow> CSVCourseData \<Rightarrow> string list" where
  "validateCourseData parseFloat d =
     (if csv_course_id d = [] then [''course_id is required''] else []) @
     (if csv_title d = [] then [''title is required''] else []) @
     (if csv_description d = [] then [''description is required''] else []) @
     (if csv_category d = [] then [''category is required''] else []) @
     (if csv_instructor d = [] then [''instructor is required''] else []) @
     (if csv_duration d = [] then [''duration is required''] else []) @
     (if csv_price d = [] then [''price is required''] else []) @
     (if csv_rating d \<noteq> [] then
        (case parseFloat (csv_rating d) of
           None \<Rightarrow> [rating_message]
         | Some parsed \<Rightarrow> if parsed < 0 \<or> parsed > 5 then [rating_message] else [])
      else []) @
     (if csv_skill_level d \<noteq> [] \<and> csv_skill_level d \<notin> set skill_levels
      then [''skill_level must be beginner, intermediate, or advanced''] else [])"

section \<open>The request handlers that write or list courses\<close>

text \<open>
  A handler is modelled from the point where the request has been read: the payload
  that \<open>isAuthenticated\<close> found in the token (if any), the route parameter and the
  parsed body.  \<open>now\<close> is the timestamp that the response carries.
\<close>

record JWTPayload =
  jwt_userId :: string
  jwt_email :: string
  jwt_role :: string

definition isAdmin :: "JWTPayload option \<Rightarrow> bool" where
  "isAdmin p = (case p of None \<Rightarrow> False | Some u \<Rightarrow> jwt_role u = ''admin'')"

record response =
  res_status :: nat
  res_body :: jsval

definition createErrorResponse :: "string \<Rightarrow> string \<Rightarrow> jsval \<Rightarrow> jsval" where
  "createErrorResponse now message details =
     JObj [(''error'', JStr message), (''details'', details), (''code'', JUndefined),
           (''timestamp'', JStr now)]"

definition createSuccessResponse :: "string \<Rightarrow> jsval \<Rightarrow> jsval \<Rightarrow> jsval" where
  "createSuccessResponse now d message =
     JObj [(''success'', JBool True), (''data'', d), (''message'', message),
           (''timestamp'', JStr now)]"

fun join_comma_space :: "string list \<Rightarrow> string" where
  "join_comma_space [] = []"
| "join_comma_space [x] = x"
| "join_comma_space (x # y # ys) = x @ '', '' @ join_comma_space (y # ys)"

text \<open>\<open>PUT /api/courses/[id]\<close>.\<close>

definition PUT :: "env \<Rightarrow> string \<Rightarrow> store \<Rightarrow> redis \<Rightarrow> JWTPayload option \<Rightarrow> string \<Rightarrow> course_partial \<Rightarrow> response \<times> store \<times> redis" where
  "PUT e now st r user courseId body =
     (if user = None \<or> \<not> isAdmin user then
        (\<lparr>res_status = 401,
          res_body = createErrorResponse now ''Unauthorized'' (JStr ''Admin access required'')\<rparr>,
         st, r)
      else if \<not> db_up st then
        (\<lparr>res_status = 500,
          res_body = createErrorResponse now ''Failed to update course''
                       (JStr (error_message e StoreUnavailable))\<rparr>, st, r)
      else
        (case validateRequest CourseUpdateSchema body of
           Inl errs \<Rightarrow>
             (\<lparr>res_status = 400,
               res_body = createErrorResponse now ''Validation failed''
                            (JStr (join_comma_space errs))\<rparr>, st, r)
         | Inr d \<Rightarrow>
             (case findOneAndUpdate st courseId d of
                (Inl f, st') \<Rightarrow>
                  (\<lparr>res_status = 500,
                    res_body = createErrorResponse now ''Failed to update course''
                                 (JStr (error_message e f))\<rparr>, st', r)
              | (Inr None, st') \<Rightarrow>
                  (\<lparr>res_status = 404,
                    res_body = createErrorResponse now ''Course not found''
                                 (JStr (''No course found with ID: '' @ courseId))\<rparr>, st', r)
              | (Inr (Some updatedCourse), st') \<Rightarrow>
                  (case redis_del r (''course:'' @ courseId) of
                     (ok1, r1) \<Rightarrow>
                       (case redis_flushPattern r1 ''search:*'' of
                          (ok2, r2) \<Rightarrow>
                            (case redis_flushPattern r2 ''courses:*'' of
                               (ok3, r3) \<Rightarrow>
                                 (\<lparr>res_status = 200,
                                   res_body = createSuccessResponse now (lean updatedCourse)
                                                (JStr ''Course updated successfully'')\<rparr>,
                                  st', r3)))))))"

text \<open>\<open>DELETE /api/courses/[id]\<close>.\<close>

definition DELETE :: "env \<Rightarrow> string \<Rightarrow> store \<Rightarrow> redis \<Rightarrow> JWTPayload option \<Rightarrow> string \<Rightarrow> response \<times> store \<times> redis" where
  "DELETE e now st r user courseId =
     (if user = None \<or> \<not> isAdmin user then
        (\<lparr>res_status = 401,
          res_body = createErrorResponse now ''Unauthorized'' (JStr ''Admin access required'')\<rparr>,
         st, r)
      else if \<not> db_up st then
        (\<lparr>res_status = 500,
          res_body = createErrorResponse now ''Failed to delete course''
                       (JStr (error_message e StoreUnavailable))\<rparr>, st, r)
      else
        (case findOneAndDelete st courseId of
           (Inl f, st') \<Rightarrow>
             (\<lparr>res_status = 500,
               res_body = createErrorResponse now ''Failed to delete course''
                            (JStr (error_message e f))\<rparr>, st', r)
         | (Inr None, st') \<Rightarrow>
             (\<lparr>res_status = 404,
               res_body = createErrorResponse now ''Course not found''
                            (JStr (''No course found with ID: '' @ courseId))\<rparr>, st', r)
         | (Inr (Some deletedCourse), st') \<Rightarrow>
             (case redis_del r (''course:'' @ courseId) of
                (ok1, r1) \<Rightarrow>
                  (case redis_flushPattern r1 ''search:*'' of
                     (ok2, r2) \<Rightarrow>
                       (case redis_flushPattern r2 ''courses:*'' of
                          (ok3, r3) \<Rightarrow>
                            (\<lparr>res_status = 200,
                              res_body = createSuccessResponse now JNull
                                           (JStr ''Course deleted successfully'')\<rparr>,
                             st', r3))))))"

text \<open>
  \<open>GET /api/courses/upload\<close>, the plain listing.  \<open>page\<close> and \<open>limit\<close> are
  what \<open>parseInt\<close> read from the two parameters (a parameter that is no number,
  or one of more than 21 digits, is not modelled); \<open>categoryParam\<close> and \<open>skillLevel\<close> are the two optional filters.
\<close>

definition list_filter :: "string option \<Rightarrow> string option \<Rightarrow> mongo_query" where
  "list_filter categoryParam skillLevel =
     empty_query
       \<lparr>q_category := (case categoryParam of None \<Rightarrow> None
                        | Some c \<Rightarrow> if c \<noteq> [] then Some c else None),
        q_skill_level := (case skillLevel of None \<Rightarrow> None
                          | Some k \<Rightarrow> if k \<noteq> [] then Some k else None)\<rparr>"

definition list_filter_object :: "mongo_query \<Rightarrow> jsval" where
  "list_filter_object q =
     JObj ((case q_category q of None \<Rightarrow> [] | Some c \<Rightarrow> [(''category'', JStr c)]) @
           (case q_skill_level q of None \<Rightarrow> [] | Some k \<Rightarrow> [(''skill_level'', JStr k)]))"

definition list_result :: "course list \<Rightarrow> nat \<Rightarrow> int \<Rightarrow> int \<Rightarrow> jsval" where
  "list_result courses totalCount page limit =
     JObj [(''success'', JBool True),
           (''courses'', JArr (map lean courses)),
           (''pagination'', JObj [(''currentPage'', JNum (of_int page)),
                                  (''totalPages'', ceil_div totalCount (of_int limit)),
                                  (''totalCourses'', JNum (real totalCount)),
                                  (''hasNext'', JBool (page * limit < int totalCount)),
                                  (''hasPrev'', JBool (page > 1))])]"

definition GET_list :: "env \<Rightarrow> store \<Rightarrow> redis \<Rightarrow> JWTPayload option \<Rightarrow> int \<Rightarrow> int \<Rightarrow> string option \<Rightarrow> string option \<Rightarrow> response \<times> redis" where
  "GET_list e st r user page limit categoryParam skillLevel =
     (if user = None \<or> \<not> isAdmin user then
        (\<lparr>res_status = 401,
          res_body = JObj [(''error'', JStr ''Unauthorized. Admin access required.'')]\<rparr>, r)
      else if \<not> db_up st then
        (\<lparr>res_status = 500, res_body = JObj [(''error'', JStr ''Failed to fetch courses'')]\<rparr>, r)
      else
        (let query = list_filter categoryParam skillLevel;
             cacheKey = ''courses:list:'' @ JSON_stringify (number_digits e) (list_filter_object query)
                        @ '':'' @ show_int page @ '':'' @ show_int limit
         in case redis_get r cacheKey of
           (cachedResult, r1) \<Rightarrow>
             (case cache_hit cachedResult of
                Some text \<Rightarrow>
                  (case JSON_parse e text of
                     None \<Rightarrow>
                       (\<lparr>res_status = 500,
                         res_body = JObj [(''error'', JStr ''Failed to fetch courses'')]\<rparr>, r1)
                   | Some v \<Rightarrow> (\<lparr>res_status = 200, res_body = v\<rparr>, r1))
              | None \<Rightarrow>
                  (let skip = (page - 1) * limit
                   in case course_find e query CreatedAtDescending (of_int skip) (of_int limit)
                             (docs st) of
                     Inl f \<Rightarrow>
                       (\<lparr>res_status = 500,
                         res_body = JObj [(''error'', JStr ''Failed to fetch courses'')]\<rparr>, r1)
                   | Inr courses \<Rightarrow>
                       (case course_count e query (docs st) of
                          Inl f \<Rightarrow>
                            (\<lparr>res_status = 500,
                              res_body = JObj [(''error'', JStr ''Failed to fetch courses'')]\<rparr>, r1)
                        | Inr totalCount \<Rightarrow>
                            (let result = list_result courses totalCount page limit
                             in case redis_set r1 cacheKey
                                      (JSON_stringify (number_digits e) result) (Some 300) of
                               (ok, r2) \<Rightarrow> (\<lparr>res_status = 200, res_body = result\<rparr>, r2)))))))"

section \<open>Cache keys and the invalidation set, as the specification names them\<close>

text \<open>The key under which \<open>searchCourses\<close> looks a descriptor up.\<close>

definition search_key :: "env \<Rightarrow> CourseSearchOptions \<Rightarrow> string" where
  "search_key e options = ''search:'' @ JSON_stringify (number_digits e) (options_object options)"

text \<open>The key of one page of the plain listing.\<close>

definition list_key :: "env \<Rightarrow> int \<Rightarrow> int \<Rightarrow> string option \<Rightarrow> string option \<Rightarrow> string" where
  "list_key e page limit categoryParam skillLevel =
     ''courses:list:'' @
     JSON_stringify (number_digits e) (list_filter_object (list_filter categoryParam skillLevel))
     @ '':'' @ show_int page @ '':'' @ show_int limit"

text \<open>
  The keys that the specification says a write to course \<open>cid\<close> invalidates: the
  course's own key, every search page, every listing page, and the statistics.
\<close>

definition invalidated_by_write :: "string \<Rightarrow> string \<Rightarrow> bool" where
  "invalidated_by_write cid k =
     (k = ''course:'' @ cid \<or> prefix ''search:'' k \<or> prefix ''courses:'' k \<or> k = ''course:stats'')"

text \<open>
  Two search descriptors are the same query when they agree on all six properties,
  whatever the order in which the properties were written.
\<close>

definition same_descriptor :: "CourseSearchOptions \<Rightarrow> CourseSearchOptions \<Rightarrow> bool" where
  "same_descriptor a b =
     (get_query a = get_query b \<and> get_category a = get_category b \<and>
      get_skillLevel a = get_skillLevel b \<and> get_minRating a = get_minRating b \<and>
      get_page a = get_page b \<and> get_limit a = get_limit b)"



section \<open>A small catalogue for the concrete instances\<close>

text \<open>
  One stored course, an empty cache that answers, and an environment whose query
  engine returns the whole collection and whose \<open>JSON.parse\<close> reads back the payload
  of that course.
\<close>

definition cs101 :: course where
  "cs101 = \<lparr>course_id = ''cs101'', title = ''Algorithms'',
             description = ''Sorting and searching'', category = ''cs'', instructor = ''Ada'',
             duration = ''10h'', price = ''free'', rating = 4, skill_level = ''beginner''\<rparr>"

definition demo_stats :: jsval where
  "demo_stats = JObj [(''totalCourses'', JNum 1), (''categoriesCount'', JObj []),
                      (''skillLevelCount'', JObj []), (''averageRating'', JNum 0)]"

definition demo_env :: env where
  "demo_env =
     \<lparr>number_digits = (\<lambda>r. ''?''),
      JSON_parse =
        (\<lambda>s. if s = JSON_stringify (\<lambda>r. ''?'') (lean cs101) then Some (lean cs101) else None),
      RegExp_valid = (\<lambda>s. True),
      course_find = (\<lambda>q s skip limit ds. Inr ds),
      course_count = (\<lambda>q ds. Inr (length ds)),
      course_aggregate = (\<lambda>g ds. Inr []),
      error_message = (\<lambda>f. ''failure'')\<rparr>"

text \<open>The same environment with a \<open>JSON.parse\<close> that reads back the payload \<open>v\<close>.\<close>

definition reading_env :: "jsval \<Rightarrow> env" where
  "reading_env v =
     demo_env\<lparr>JSON_parse :=
       (\<lambda>s. if s = JSON_stringify (\<lambda>r. ''?'') v then Some v else None)\<rparr>"

definition demo_store :: store where
  "demo_store = \<lparr>db_up = True, docs = [cs101]\<rparr>"


definition empty_cache :: redis where
  "empty_cache = \<lparr>server_up = True, client = False, isConnected = False, entries = []\<rparr>"


definition admin :: JWTPayload where
  "admin = \<lparr>jwt_userId = ''u1'', jwt_email = ''admin@example.com'', jwt_role = ''admin''\<rparr>"

definition no_update :: course_partial where
  "no_update = \<lparr>p_course_id = None, p_title = None, p_description = None, p_category = None,
                 p_instructor = None, p_duration = None, p_price = None, p_rating = None,
                 p_skill_level = None\<rparr>"

definition as_partial :: "course \<Rightarrow> course_partial" where
  "as_partial c =
     \<lparr>p_course_id = Some (course_id c), p_title = Some (title c),
      p_description = Some (description c), p_category = Some (category c),
      p_instructor = Some (instructor c), p_duration = Some (duration c),
      p_price = Some (price c), p_rating = Some (rating c),
      p_skill_level = Some (skill_level c)\<rparr>"

definition cache_with_cs101 :: redis where
  "cache_with_cs101 =
     \<lparr>server_up = True, client = True, isConnected = True,
      entries = [(''course:cs101'',
                  \<lparr>payload = JSON_stringify (\<lambda>r. ''?'') (lean cs101), ttl = Some 1800\<rparr>)]\<rparr>"

definition options_a :: CourseSearchOptions where
  "options_a = [OptQuery ''java'', OptPage 1]"

definition options_b :: CourseSearchOptions where
  "options_b = [OptPage 1, OptQuery ''java'']"

definition warm_cache :: redis where
  "warm_cache =
     \<lparr>server_up = True, client = True, isConnected = True,
      entries =
        [(''course:cs101'',
          \<lparr>payload = JSON_stringify (\<lambda>r. ''?'') (lean cs101), ttl = Some 1800\<rparr>),
         (''search:{}'',
          \<lparr>payload = JSON_stringify (\<lambda>r. ''?'') (search_result [cs101] 1 1 20), ttl = Some 600\<rparr>),
         (''course:stats'',
          \<lparr>payload = JSON_stringify (\<lambda>r. ''?'') demo_stats, ttl = Some 900\<rparr>),
         (''courses:list:{}:1:20'',
          \<lparr>payload = JSON_stringify (\<lambda>r. ''?'') (list_result [cs101] 1 1 20), ttl = Some 300\<rparr>)]\<rparr>"

definition lower_rating :: course_partial where
  "lower_rating = no_update\<lparr>p_rating := Some 3\<rparr>"


definition rating_out_of_range :: course_partial where
  "rating_out_of_range = no_update\<lparr>p_rating := Some 7\<rparr>"

definition demo_now :: string where
  "demo_now = ''2026-01-01T00:00:00.000Z''"



definition csv_row :: "string \<Rightarrow> CSVCourseData" where
  "csv_row rating_text =
     \<lparr>csv_course_id = ''cs101'', csv_title = ''Algorithms'',
      csv_description = ''Sorting and searching'', csv_category = ''cs'',
      csv_instructor = ''Ada'', csv_duration = ''10h'', csv_price = ''free'',
      csv_rating = rating_text, csv_skill_level = ''beginner''\<rparr>"

text \<open>\<open>parseFloat\<close> on the four rating texts of the instances.\<close>

definition demo_parseFloat :: "string \<Rightarrow> real option" where
  "demo_parseFloat s =
     (if s = ''-0.1'' then Some (- 1 / 10)
      else if s = ''5.1'' then Some (51 / 10)
      else if s = ''0'' then Some 0
      else if s = ''5'' then Some 5
      else None)"


section \<open>Properties of the cache gateway\<close>

lemma glob_star [simp]: "glob_match ''*'' s"
  by (induction s) auto

lemma glob_literal:
  "c \<noteq> CHR ''*'' \<Longrightarrow> c \<noteq> CHR ''?'' \<Longrightarrow>
   glob_match (c # p) s = (\<exists>s'. s = c # s' \<and> glob_match p s')"
  by (cases s) auto

lemma glob_search [simp]: "glob_match ''search:*'' k = prefix ''search:'' k"
  by (auto simp: glob_literal prefix_def)

lemma glob_courses [simp]: "glob_match ''courses:*'' k = prefix ''courses:'' k"
  by (auto simp: glob_literal prefix_def)

lemma client_del_Nil [simp]: "client_del es [] = es"
  by (simp add: client_del_def)

lemma map_of_client_del: "map_of (client_del es ks) k = (if k \<in> set ks then None else map_of es k)"
  by (induction es) (auto simp: client_del_def)

lemma client_get_del: "client_get (client_del es ks) k = (if k \<in> set ks then None else client_get es k)"
  by (simp add: client_get_def map_of_client_del)

lemma map_of_client_setEx:
  "map_of (client_setEx es k n v) k' =
     (if k' = k then Some \<lparr>payload = v, ttl = Some n\<rparr> else map_of es k')"
  by (simp add: client_setEx_def map_of_client_del)

lemma client_get_setEx:
  "client_get (client_setEx es k n v) k' = (if k' = k then Some v else client_get es k')"
  by (simp add: client_get_def map_of_client_setEx)

lemma client_del_keys:
  "client_del es (client_keys es p) = filter (\<lambda>(k, e). \<not> glob_match p k) es"
  unfolding client_del_def client_keys_def
  by (rule filter_cong) (auto simp: rev_image_eqI)

lemma redis_get_fst: "fst (redis_get r k) = (if server_up r then client_get (entries r) k else None)"
  by (simp add: redis_get_def connect_def)

lemma redis_get_snd:
  "server_up (snd (redis_get r k)) = server_up r"
  "entries (snd (redis_get r k)) = entries r"
  by (simp_all add: redis_get_def connect_def)


lemma redis_set_snd:
  "server_up (snd (redis_set r k v t)) = server_up r"
  "entries (snd (redis_set r k v (Some n))) =
     (if server_up r then (if n \<noteq> 0 then client_setEx (entries r) k n v else client_set (entries r) k v)
      else entries r)"
  by (simp_all add: redis_set_def connect_def split: option.splits)


lemma redis_del_snd:
  "server_up (snd (redis_del r k)) = server_up r"
  "entries (snd (redis_del r k)) = (if server_up r then client_del (entries r) [k] else entries r)"
  by (simp_all add: redis_del_def connect_def)



lemma redis_flushPattern_snd:
  "server_up (snd (redis_flushPattern r p)) = server_up r"
  "entries (snd (redis_flushPattern r p)) =
     (if server_up r then filter (\<lambda>(k, e). \<not> glob_match p k) (entries r) else entries r)"
  by (auto simp add: redis_flushPattern_def connect_def Let_def client_del_keys [symmetric])

lemma invalidateSearchCaches_state:
  "server_up (invalidateSearchCaches r) = server_up r"
  "entries (invalidateSearchCaches r) =
     (if server_up r
      then filter (\<lambda>(k, e). \<not> prefix ''search:'' k \<and> \<not> prefix ''courses:'' k \<and> k \<noteq> ''course:stats'')
             (entries r)
      else entries r)"
  by (auto simp add: invalidateSearchCaches_def split_beta redis_flushPattern_snd redis_del_snd
        client_del_def intro!: filter_cong)


section \<open>The read path\<close>

lemma getCourseById_hit:
  assumes "db_up st" "cache_hit (fst (redis_get r (''course:'' @ cid))) = Some text"
    "JSON_parse e text = Some v"
  shows "fst (getCourseById e st r cid) = Inr v"
    and "entries (snd (getCourseById e st r cid)) = entries r"
  using assms by (simp_all add: getCourseById_def Let_def split_beta redis_get_snd)

lemma getCourseById_miss_found:
  assumes "db_up st" "cache_hit (fst (redis_get r (''course:'' @ cid))) = None"
    "find (has_id cid) (docs st) = Some c"
  shows "fst (getCourseById e st r cid) = Inr (lean c)"
    and "entries (snd (getCourseById e st r cid)) =
           (if server_up r
            then client_setEx (entries r) (''course:'' @ cid) 1800
                   (JSON_stringify (number_digits e) (lean c))
            else entries r)"
  using assms
  by (simp_all add: getCourseById_def Let_def split_beta findOne_def redis_get_snd redis_set_snd
        CACHE_TTL_COURSE_DETAIL_def)

lemma getCourseById_miss_absent:
  assumes "db_up st" "cache_hit (fst (redis_get r (''course:'' @ cid))) = None"
    "find (has_id cid) (docs st) = None"
  shows "fst (getCourseById e st r cid) = Inr JNull"
    and "entries (snd (getCourseById e st r cid)) = entries r"
    and "server_up (snd (getCourseById e st r cid)) = server_up r"
  using assms
  by (simp_all add: getCourseById_def Let_def split_beta findOne_def redis_get_snd)

lemma searchCourses_hit:
  assumes "db_up st" "cache_hit (fst (redis_get r (search_key e options))) = Some text"
    "JSON_parse e text = Some v"
  shows "fst (searchCourses e st r options) =
           Inr (JObj (props_set (spread_props v) ''cached'' (JBool True)))"
    and "entries (snd (searchCourses e st r options)) = entries r"
  using assms
  by (simp_all add: searchCourses_def search_key_def Let_def split_beta redis_get_snd)

lemma searchCourses_miss:
  assumes "db_up st" "cache_hit (fst (redis_get r (search_key e options))) = None"
    and q: "q = search_query (or_else (get_query options) []) (get_category options)
                  (get_skillLevel options) (get_minRating options)"
    and "case q_category_regex q of None \<Rightarrow> True | Some c \<Rightarrow> RegExp_valid e c"
    and "course_find e q (if or_else (get_query options) [] \<noteq> [] then TextScoreThenRating else RatingDescending)
           ((or_else (get_page options) 1 - 1) * or_else (get_limit options) 20)
           (or_else (get_limit options) 20) (docs st) = Inr courses"
    and "course_count e q (docs st) = Inr totalCount"
    and res: "result = search_result courses totalCount (or_else (get_page options) 1)
                 (or_else (get_limit options) 20)"
  shows "fst (searchCourses e st r options) = Inr result"
    and "entries (snd (searchCourses e st r options)) =
           (if server_up r
            then client_setEx (entries r) (search_key e options) 600
                   (JSON_stringify (number_digits e) result)
            else entries r)"
  using assms
  by (simp_all add: searchCourses_def search_key_def Let_def split_beta redis_get_snd
        redis_set_snd CACHE_TTL_SEARCH_RESULTS_def split: option.splits)


lemma map_of_props_set: "map_of (props_set ps k v) k = Some v"
  by (induction ps) auto

lemma js_get_props_set: "js_get (JObj (props_set ps k v)) k = v"
  by (simp add: js_get_def map_of_props_set)

lemma search_result_cached: "js_get (search_result cs n p l) ''cached'' = JBool False"
  by (simp add: search_result_def js_get_def)

lemma searchCourses_returns:
  assumes "cache_hit (fst (redis_get r (search_key e options))) = None"
    and "fst (searchCourses e st r options) = Inr result"
  shows "entries (snd (searchCourses e st r options)) =
           (if server_up r
            then client_setEx (entries r) (search_key e options) 600
                   (JSON_stringify (number_digits e) result)
            else entries r)"
  using assms
  by (auto simp add: searchCourses_def search_key_def Let_def split_beta redis_get_snd
        redis_set_snd CACHE_TTL_SEARCH_RESULTS_def split: option.splits if_splits sum.splits)

lemma getCourseStats_hit:
  assumes "db_up st" "cache_hit (fst (redis_get r ''course:stats'')) = Some text"
    "JSON_parse e text = Some v"
  shows "fst (getCourseStats e st r) = Inr v"
    and "entries (snd (getCourseStats e st r)) = entries r"
  using assms by (simp_all add: getCourseStats_def Let_def split_beta redis_get_snd)

lemma getCourseStats_miss:
  assumes "db_up st" "cache_hit (fst (redis_get r ''course:stats'')) = None"
    and "course_count e empty_query (docs st) = Inr totalCourses"
    and "course_aggregate e (GroupCount ''category'') (docs st) = Inr categoryStats"
    and "course_aggregate e (GroupCount ''skill_level'') (docs st) = Inr skillLevelStats"
    and "course_aggregate e (GroupAverage ''rating'') (docs st) = Inr avgRating"
    and "stats = JObj [(''totalCourses'', JNum (real totalCourses)),
                       (''categoriesCount'', count_by_id (number_digits e) categoryStats),
                       (''skillLevelCount'', count_by_id (number_digits e) skillLevelStats),
                       (''averageRating'', first_avgRating avgRating)]"
  shows "fst (getCourseStats e st r) = Inr stats"
    and "entries (snd (getCourseStats e st r)) =
           (if server_up r
            then client_setEx (entries r) ''course:stats'' 900 (JSON_stringify (number_digits e) stats)
            else entries r)"
  using assms
  by (simp_all add: getCourseStats_def Let_def split_beta redis_get_snd redis_set_snd)

lemma getCourseStats_returns:
  assumes "cache_hit (fst (redis_get r ''course:stats'')) = None"
    and "fst (getCourseStats e st r) = Inr stats"
  shows "entries (snd (getCourseStats e st r)) =
           (if server_up r
            then client_setEx (entries r) ''course:stats'' 900 (JSON_stringify (number_digits e) stats)
            else entries r)"
  using assms
  by (auto simp add: getCourseStats_def Let_def split_beta redis_get_snd redis_set_snd
        split: option.splits if_splits sum.splits)

lemma GET_list_hit:
  assumes "isAdmin user" "db_up st"
    and "cache_hit (fst (redis_get r (list_key e page limit cat skill))) = Some text"
    and "JSON_parse e text = Some v"
  shows "fst (GET_list e st r user page limit cat skill) = \<lparr>res_status = 200, res_body = v\<rparr>"
    and "entries (snd (GET_list e st r user page limit cat skill)) = entries r"
  using assms
  by (auto simp add: GET_list_def list_key_def Let_def split_beta redis_get_snd isAdmin_def
        split: option.splits)

lemma GET_list_miss:
  assumes "isAdmin user" "db_up st"
    and "cache_hit (fst (redis_get r (list_key e page limit cat skill))) = None"
    and "course_find e (list_filter cat skill) CreatedAtDescending (of_int ((page - 1) * limit))
           (of_int limit) (docs st) = Inr courses"
    and "course_count e (list_filter cat skill) (docs st) = Inr totalCount"
  shows "fst (GET_list e st r user page limit cat skill) =
           \<lparr>res_status = 200, res_body = list_result courses totalCount page limit\<rparr>"
    and "entries (snd (GET_list e st r user page limit cat skill)) =
           (if server_up r
            then client_setEx (entries r) (list_key e page limit cat skill) 300
                   (JSON_stringify (number_digits e) (list_result courses totalCount page limit))
            else entries r)"
  using assms
  by (auto simp add: GET_list_def list_key_def Let_def split_beta redis_get_snd redis_set_snd
        isAdmin_def split: option.splits)

section \<open>A cache that does not answer\<close>







lemma demo_miss: "cache_hit (fst (redis_get empty_cache k)) = None"
  by (simp add: redis_get_fst empty_cache_def client_get_def cache_hit_def)


section \<open>A lookup that finds nothing\<close>




section \<open>Times to live\<close>

lemma getCourseById_returns:
  assumes "cache_hit (fst (redis_get r (''course:'' @ cid))) = None"
    and "fst (getCourseById e st r cid) = Inr v" and "v \<noteq> JNull"
  shows "entries (snd (getCourseById e st r cid)) =
           (if server_up r
            then client_setEx (entries r) (''course:'' @ cid) 1800 (JSON_stringify (number_digits e) v)
            else entries r)"
  using assms
  by (auto simp add: getCourseById_def Let_def split_beta redis_get_snd redis_set_snd
        CACHE_TTL_COURSE_DETAIL_def split: option.splits if_splits sum.splits)

lemma GET_list_returns:
  assumes "cache_hit (fst (redis_get r (list_key e page limit cat skill))) = None"
    and "res_status (fst (GET_list e st r user page limit cat skill)) = 200"
  shows "entries (snd (GET_list e st r user page limit cat skill)) =
           (if server_up r
            then client_setEx (entries r) (list_key e page limit cat skill) 300
                   (JSON_stringify (number_digits e)
                      (res_body (fst (GET_list e st r user page limit cat skill))))
            else entries r)"
  using assms
  by (auto simp add: GET_list_def list_key_def Let_def split_beta redis_get_snd redis_set_snd
        split: option.splits if_splits sum.splits)

text \<open>
  Claim C9.  When the cache answers and a read misses, the entry that the read leaves
  under its key carries the payload it returned and a time to live of 1800 seconds
  for a course found by \<open>getCourseById\<close>, 600 seconds for a page of
  \<open>searchCourses\<close>, 300 seconds for a page of the plain listing and 900 seconds
  for the statistics.  The first three are the entries of \<open>CACHE_TTL\<close>.
\<close>

theorem ttl_by_operation:
  assumes "server_up r"
  shows "(cache_hit (fst (redis_get r (''course:'' @ cid))) = None \<and>
          fst (getCourseById e st r cid) = Inr v \<and> v \<noteq> JNull \<longrightarrow>
            map_of (entries (snd (getCourseById e st r cid))) (''course:'' @ cid) =
              Some \<lparr>payload = JSON_stringify (number_digits e) v, ttl = Some 1800\<rparr>) \<and>
         (cache_hit (fst (redis_get r (search_key e options))) = None \<and>
          fst (searchCourses e st r options) = Inr page_result \<longrightarrow>
            map_of (entries (snd (searchCourses e st r options))) (search_key e options) =
              Some \<lparr>payload = JSON_stringify (number_digits e) page_result, ttl = Some 600\<rparr>) \<and>
         (cache_hit (fst (redis_get r (list_key e page limit cat skill))) = None \<and>
          res_status (fst (GET_list e st r user page limit cat skill)) = 200 \<longrightarrow>
            map_of (entries (snd (GET_list e st r user page limit cat skill)))
                   (list_key e page limit cat skill) =
              Some \<lparr>payload = JSON_stringify (number_digits e)
                                 (res_body (fst (GET_list e st r user page limit cat skill))),
                    ttl = Some 300\<rparr>) \<and>
         (cache_hit (fst (redis_get r ''course:stats'')) = None \<and>
          fst (getCourseStats e st r) = Inr stats \<longrightarrow>
            map_of (entries (snd (getCourseStats e st r))) ''course:stats'' =
              Some \<lparr>payload = JSON_stringify (number_digits e) stats, ttl = Some 900\<rparr>) \<and>
         CACHE_TTL_COURSE_DETAIL = 1800 \<and> CACHE_TTL_SEARCH_RESULTS = 600 \<and>
         CACHE_TTL_COURSE_LIST = 300"
proof (intro conjI impI)
  show "CACHE_TTL_COURSE_DETAIL = 1800" "CACHE_TTL_SEARCH_RESULTS = 600" "CACHE_TTL_COURSE_LIST = 300"
    by (simp_all add: CACHE_TTL_COURSE_DETAIL_def CACHE_TTL_SEARCH_RESULTS_def
          CACHE_TTL_COURSE_LIST_def)
qed (use assms in \<open>simp_all add: getCourseById_returns searchCourses_returns GET_list_returns
       getCourseStats_returns map_of_client_setEx\<close>)


theorem ttl_by_operation_witness:
  "server_up empty_cache \<and>
   map_option ttl (map_of (entries (snd (getCourseById demo_env demo_store empty_cache ''cs101'')))
                     ''course:cs101'') = Some (Some 1800) \<and>
   map_option ttl (map_of (entries (snd (searchCourses demo_env demo_store empty_cache [])))
                     (search_key demo_env [])) = Some (Some 600) \<and>
   map_option ttl (map_of (entries (snd (GET_list demo_env demo_store empty_cache (Some admin)
                                           1 20 None None)))
                     (list_key demo_env 1 20 None None)) = Some (Some 300) \<and>
   map_option ttl (map_of (entries (snd (getCourseStats demo_env demo_store empty_cache)))
                     ''course:stats'') = Some (Some 900)"
proof -
  have up: "server_up empty_cache" and db: "db_up demo_store"
    by (simp_all add: empty_cache_def demo_store_def)
  have g: "fst (getCourseById demo_env demo_store empty_cache ''cs101'') = Inr (lean cs101)"
    by (rule getCourseById_miss_found(1))
       (simp_all add: demo_miss demo_store_def cs101_def has_id_def)
  have n: "lean cs101 \<noteq> JNull" by (simp add: lean_def)
  have s: "fst (searchCourses demo_env demo_store empty_cache []) =
           Inr (search_result [cs101] 1 1 20)"
    by (rule searchCourses_miss(1) [OF db demo_miss refl])
       (simp_all add: demo_env_def demo_store_def search_query_def or_else_def)
  have l: "fst (GET_list demo_env demo_store empty_cache (Some admin) 1 20 None None) =
           \<lparr>res_status = 200, res_body = list_result [cs101] 1 1 20\<rparr>"
    by (rule GET_list_miss(1) [OF _ db demo_miss])
       (simp_all add: demo_env_def demo_store_def isAdmin_def admin_def)
  have t: "\<exists>stats. fst (getCourseStats demo_env demo_store empty_cache) = Inr stats"
    using getCourseStats_miss(1) [OF db demo_miss, of demo_env 1 "[]" "[]" "[]"]
    by (simp add: demo_env_def demo_store_def)
  then obtain stats where t': "fst (getCourseStats demo_env demo_store empty_cache) = Inr stats" ..
  show ?thesis
    using up g n s l t' demo_miss
      ttl_by_operation [OF up, of "''cs101''" demo_env demo_store "lean cs101" "[]"
        "search_result [cs101] 1 1 20" 1 20 None None "Some admin" stats]
    by simp
qed

section \<open>Hits and misses of the read path\<close>

lemma lean_no_marker: "js_get (lean c) ''cached'' = JUndefined"
  by (simp add: lean_def js_get_def)

text \<open>
  Claim C7 fails as stated: \<open>getCourseById\<close> answers a hit with the stored payload
  as it is.  Here the cache holds the course under \<open>course:cs101\<close>; the call
  returns that object, which has no \<open>cached\<close> property.
\<close>

theorem getCourseById_hit_has_no_marker:
  "cache_hit (fst (redis_get cache_with_cs101 ''course:cs101'')) =
     Some (JSON_stringify (\<lambda>r. ''?'') (lean cs101)) \<and>
   fst (getCourseById demo_env demo_store cache_with_cs101 ''cs101'') = Inr (lean cs101) \<and>
   js_get (lean cs101) ''cached'' \<noteq> JBool True"
proof -
  have nonempty: "JSON_stringify (\<lambda>r. ''?'') (lean cs101) \<noteq> []"
    by (simp add: lean_def)
  have hit: "cache_hit (fst (redis_get cache_with_cs101 (''course:'' @ ''cs101''))) =
               Some (JSON_stringify (\<lambda>r. ''?'') (lean cs101))"
    using nonempty by (simp add: redis_get_fst cache_with_cs101_def client_get_def cache_hit_def)
  have parse: "JSON_parse demo_env (JSON_stringify (\<lambda>r. ''?'') (lean cs101)) = Some (lean cs101)"
    by (simp add: demo_env_def)
  have "fst (getCourseById demo_env demo_store cache_with_cs101 ''cs101'') = Inr (lean cs101)"
    by (rule getCourseById_hit(1) [OF _ hit parse]) (simp add: demo_store_def)
  then show ?thesis using hit by (simp add: lean_no_marker)
qed


text \<open>
  Claim C7, amended.  \<open>searchCourses\<close> is the one read that marks its result: on a
  hit it returns the deserialized payload with \<open>cached\<close> set to \<open>true\<close>; on a
  miss it runs the store query, returns the result with \<open>cached\<close> \<open>false\<close> and,
  when the cache answers, stores it for 600 seconds.  \<open>getCourseById\<close>,
  \<open>getCourseStats\<close> and the listing handler return the deserialized payload of a hit
  as it is, and on a miss the result of the store query, with no marker either way;
  the miss stores the result for 1800, 900 and 300 seconds, except that
  \<open>getCourseById\<close> stores nothing when the store has no such course.
\<close>

theorem read_through_by_operation:
  assumes "db_up st"
  shows "(cache_hit (fst (redis_get r (search_key e options))) = Some text_s \<and>
          JSON_parse e text_s = Some v_s \<longrightarrow>
            fst (searchCourses e st r options) =
              Inr (JObj (props_set (spread_props v_s) ''cached'' (JBool True))) \<and>
            js_get (JObj (props_set (spread_props v_s) ''cached'' (JBool True))) ''cached'' = JBool True \<and>
            entries (snd (searchCourses e st r options)) = entries r) \<and>
         (cache_hit (fst (redis_get r (search_key e options))) = None \<and>
          q = search_query (or_else (get_query options) []) (get_category options)
                (get_skillLevel options) (get_minRating options) \<and>
          (case q_category_regex q of None \<Rightarrow> True | Some c \<Rightarrow> RegExp_valid e c) \<and>
          course_find e q
            (if or_else (get_query options) [] \<noteq> [] then TextScoreThenRating else RatingDescending)
            ((or_else (get_page options) 1 - 1) * or_else (get_limit options) 20)
            (or_else (get_limit options) 20) (docs st) = Inr courses \<and>
          course_count e q (docs st) = Inr totalCount \<and>
          page_result = search_result courses totalCount (or_else (get_page options) 1)
                          (or_else (get_limit options) 20) \<longrightarrow>
            fst (searchCourses e st r options) = Inr page_result \<and>
            js_get page_result ''cached'' = JBool False \<and>
            entries (snd (searchCourses e st r options)) =
              (if server_up r
               then client_setEx (entries r) (search_key e options) 600
                      (JSON_stringify (number_digits e) page_result)
               else entries r)) \<and>
         (cache_hit (fst (redis_get r (''course:'' @ cid))) = Some text_c \<and>
          JSON_parse e text_c = Some v_c \<longrightarrow>
            fst (getCourseById e st r cid) = Inr v_c \<and>
            entries (snd (getCourseById e st r cid)) = entries r) \<and>
         (cache_hit (fst (redis_get r (''course:'' @ cid))) = None \<and>
          find (has_id cid) (docs st) = Some c \<longrightarrow>
            fst (getCourseById e st r cid) = Inr (lean c) \<and>
            js_get (lean c) ''cached'' = JUndefined \<and>
            entries (snd (getCourseById e st r cid)) =
              (if server_up r
               then client_setEx (entries r) (''course:'' @ cid) 1800
                      (JSON_stringify (number_digits e) (lean c))
               else entries r)) \<and>
         (cache_hit (fst (redis_get r (''course:'' @ cid))) = None \<and>
          find (has_id cid) (docs st) = None \<longrightarrow>
            fst (getCourseById e st r cid) = Inr JNull \<and>
            entries (snd (getCourseById e st r cid)) = entries r) \<and>
         (cache_hit (fst (redis_get r ''course:stats'')) = Some text_t \<and>
          JSON_parse e text_t = Some v_t \<longrightarrow>
            fst (getCourseStats e st r) = Inr v_t \<and>
            entries (snd (getCourseStats e st r)) = entries r) \<and>
         (cache_hit (fst (redis_get r ''course:stats'')) = None \<and>
          course_count e empty_query (docs st) = Inr totalCourses \<and>
          course_aggregate e (GroupCount ''category'') (docs st) = Inr categoryStats \<and>
          course_aggregate e (GroupCount ''skill_level'') (docs st) = Inr skillLevelStats \<and>
          course_aggregate e (GroupAverage ''rating'') (docs st) = Inr avgRating \<and>
          stats = JObj [(''totalCourses'', JNum (real totalCourses)),
                        (''categoriesCount'', count_by_id (number_digits e) categoryStats),
                        (''skillLevelCount'', count_by_id (number_digits e) skillLevelStats),
                        (''averageRating'', first_avgRating avgRating)] \<longrightarrow>
            fst (getCourseStats e st r) = Inr stats \<and>
            js_get stats ''cached'' = JUndefined \<and>
            entries (snd (getCourseStats e st r)) =
              (if server_up r
               then client_setEx (entries r) ''course:stats'' 900
                      (JSON_stringify (number_digits e) stats)
               else entries r)) \<and>
         (isAdmin user \<and>
          cache_hit (fst (redis_get r (list_key e page limit cat skill))) = Some text_l \<and>
          JSON_parse e text_l = Some v_l \<longrightarrow>
            fst (GET_list e st r user page limit cat skill) = \<lparr>res_status = 200, res_body = v_l\<rparr> \<and>
            entries (snd (GET_list e st r user page limit cat skill)) = entries r) \<and>
         (isAdmin user \<and>
          cache_hit (fst (redis_get r (list_key e page limit cat skill))) = None \<and>
          course_find e (list_filter cat skill) CreatedAtDescending (of_int ((page - 1) * limit))
            (of_int limit) (docs st) = Inr listed \<and>
          course_count e (list_filter cat skill) (docs st) = Inr listedCount \<longrightarrow>
            fst (GET_list e st r user page limit cat skill) =
              \<lparr>res_status = 200, res_body = list_result listed listedCount page limit\<rparr> \<and>
            js_get (list_result listed listedCount page limit) ''cached'' = JUndefined \<and>
            entries (snd (GET_list e st r user page limit cat skill)) =
              (if server_up r
               then client_setEx (entries r) (list_key e page limit cat skill) 300
                      (JSON_stringify (number_digits e) (list_result listed listedCount page limit))
               else entries r))"
proof (intro conjI impI; (elim conjE)?)
  show "js_get (JObj (props_set (spread_props v_s) ''cached'' (JBool True))) ''cached'' = JBool True"
    by (rule js_get_props_set)
  show "js_get (lean c) ''cached'' = JUndefined"
    by (rule lean_no_marker)
  show "js_get (list_result listed listedCount page limit) ''cached'' = JUndefined"
    by (simp add: list_result_def js_get_def)
  show "js_get stats ''cached'' = JUndefined"
    if "stats = JObj [(''totalCourses'', JNum (real totalCourses)),
                        (''categoriesCount'', count_by_id (number_digits e) categoryStats),
                        (''skillLevelCount'', count_by_id (number_digits e) skillLevelStats),
                        (''averageRating'', first_avgRating avgRating)]"
    using that by (simp add: js_get_def)
  show "js_get page_result ''cached'' = JBool False"
    if "page_result = search_result courses totalCount (or_else (get_page options) 1)
                          (or_else (get_limit options) 20)"
    using that by (simp add: search_result_cached)
qed (use assms in \<open>simp_all add: searchCourses_hit searchCourses_miss getCourseById_hit
       getCourseById_miss_found getCourseById_miss_absent getCourseStats_hit getCourseStats_miss
       GET_list_hit GET_list_miss\<close>)



lemma demo_keys:
  "search_key e [] = ''search:{}''"
  "list_key e 1 20 None None = ''courses:list:{}:1:20''"
proof -
  have "show_int 1 = ''1''" "show_int 20 = ''20''" by code_simp+
  then show "search_key e [] = ''search:{}''"
    "list_key e 1 20 None None = ''courses:list:{}:1:20''"
    by (simp_all add: search_key_def list_key_def options_object_def list_filter_object_def
        list_filter_def empty_query_def)
qed

lemma object_text_not_empty: "JSON_stringify nd (JObj ps) \<noteq> []"
  by simp

lemma reading_env_fields:
  "number_digits (reading_env v) = (\<lambda>r. ''?'')"
  "JSON_parse (reading_env v) (JSON_stringify (\<lambda>r. ''?'') v) = Some v"
  "RegExp_valid (reading_env v) = (\<lambda>s. True)"
  "course_find (reading_env v) = (\<lambda>q s skip limit ds. Inr ds)"
  "course_count (reading_env v) = (\<lambda>q ds. Inr (length ds))"
  "course_aggregate (reading_env v) = (\<lambda>g ds. Inr [])"
  by (simp_all add: reading_env_def demo_env_def)

lemma warm_lookups:
  "cache_hit (fst (redis_get warm_cache ''course:cs101'')) = Some (JSON_stringify (\<lambda>r. ''?'') (lean cs101))"
  "cache_hit (fst (redis_get warm_cache ''search:{}'')) =
     Some (JSON_stringify (\<lambda>r. ''?'') (search_result [cs101] 1 1 20))"
  "cache_hit (fst (redis_get warm_cache ''course:stats'')) = Some (JSON_stringify (\<lambda>r. ''?'') demo_stats)"
  "cache_hit (fst (redis_get warm_cache ''courses:list:{}:1:20'')) =
     Some (JSON_stringify (\<lambda>r. ''?'') (list_result [cs101] 1 1 20))"
  by (simp_all add: redis_get_fst warm_cache_def client_get_def cache_hit_def lean_def
        search_result_def demo_stats_def list_result_def)


theorem read_through_by_operation_witness:
  "db_up demo_store \<and>
   fst (searchCourses (reading_env (search_result [cs101] 1 1 20)) demo_store warm_cache []) =
     Inr (JObj (props_set (spread_props (search_result [cs101] 1 1 20)) ''cached'' (JBool True))) \<and>
   fst (searchCourses demo_env demo_store empty_cache []) = Inr (search_result [cs101] 1 1 20) \<and>
   js_get (search_result [cs101] 1 1 20) ''cached'' = JBool False \<and>
   fst (getCourseById demo_env demo_store warm_cache ''cs101'') = Inr (lean cs101) \<and>
   fst (getCourseById demo_env demo_store empty_cache ''cs101'') = Inr (lean cs101) \<and>
   fst (getCourseById demo_env demo_store empty_cache ''cs999'') = Inr JNull \<and>
   fst (getCourseStats (reading_env demo_stats) demo_store warm_cache) = Inr demo_stats \<and>
   fst (getCourseStats demo_env demo_store empty_cache) = Inr demo_stats \<and>
   fst (GET_list (reading_env (list_result [cs101] 1 1 20)) demo_store warm_cache (Some admin)
          1 20 None None) =
     \<lparr>res_status = 200, res_body = list_result [cs101] 1 1 20\<rparr> \<and>
   fst (GET_list demo_env demo_store empty_cache (Some admin) 1 20 None None) =
     \<lparr>res_status = 200, res_body = list_result [cs101] 1 1 20\<rparr>"
proof -
  let ?S = "search_result [cs101] 1 1 20"
  let ?L = "list_result [cs101] 1 1 20"
  have db: "db_up demo_store" by (simp add: demo_store_def)
  have adm: "isAdmin (Some admin)" by (simp add: isAdmin_def admin_def)
  have docs: "docs demo_store = [cs101]" by (simp add: demo_store_def)
  have h1: "fst (searchCourses (reading_env ?S) demo_store warm_cache []) =
              Inr (JObj (props_set (spread_props ?S) ''cached'' (JBool True)))"
    using read_through_by_operation [OF db, where r = warm_cache and e = "reading_env ?S"
        and options = "[]" and text_s = "JSON_stringify (\<lambda>r. ''?'') ?S" and v_s = "?S"]
      warm_lookups(2) demo_keys(1) reading_env_fields(2)
    by simp
  have h2: "fst (searchCourses demo_env demo_store empty_cache []) = Inr ?S \<and>
            js_get ?S ''cached'' = JBool False"
    using read_through_by_operation [OF db, where r = empty_cache and e = demo_env
        and options = "[]" and courses = "[cs101]" and totalCount = 1 and page_result = "?S"
        and q = "search_query [] None None None"]
      demo_miss docs
    by (simp add: demo_env_def search_query_def or_else_def)
  have h3: "fst (getCourseById demo_env demo_store warm_cache ''cs101'') = Inr (lean cs101)"
    using read_through_by_operation [OF db, where r = warm_cache and e = demo_env
        and cid = "''cs101''" and text_c = "JSON_stringify (\<lambda>r. ''?'') (lean cs101)"
        and v_c = "lean cs101"]
      warm_lookups(1)
    by (simp add: demo_env_def)
  have h4: "fst (getCourseById demo_env demo_store empty_cache ''cs101'') = Inr (lean cs101)"
    using read_through_by_operation [OF db, where r = empty_cache and e = demo_env
        and cid = "''cs101''" and c = cs101]
      demo_miss docs
    by (simp add: has_id_def cs101_def)
  have h5: "fst (getCourseById demo_env demo_store empty_cache ''cs999'') = Inr JNull"
    using read_through_by_operation [OF db, where r = empty_cache and e = demo_env
        and cid = "''cs999''"]
      demo_miss docs
    by (simp add: has_id_def cs101_def)
  have h6: "fst (getCourseStats (reading_env demo_stats) demo_store warm_cache) = Inr demo_stats"
    using read_through_by_operation [OF db, where r = warm_cache and e = "reading_env demo_stats"
        and text_t = "JSON_stringify (\<lambda>r. ''?'') demo_stats" and v_t = demo_stats]
      warm_lookups(3) reading_env_fields(2)
    by simp
  have h7: "fst (getCourseStats demo_env demo_store empty_cache) = Inr demo_stats"
    using read_through_by_operation [OF db, where r = empty_cache and e = demo_env
        and totalCourses = 1 and categoryStats = "[]" and skillLevelStats = "[]"
        and avgRating = "[]" and stats = demo_stats]
      demo_miss docs
    by (simp add: demo_env_def demo_stats_def count_by_id_def first_avgRating_def truthy_def)
  have h8: "fst (GET_list (reading_env ?L) demo_store warm_cache (Some admin) 1 20 None None) =
              \<lparr>res_status = 200, res_body = ?L\<rparr>"
    using read_through_by_operation [OF db, where r = warm_cache and e = "reading_env ?L"
        and user = "Some admin" and page = 1 and limit = 20 and cat = None and skill = None
        and text_l = "JSON_stringify (\<lambda>r. ''?'') ?L" and v_l = "?L"]
      warm_lookups(4) demo_keys(2) reading_env_fields(2) adm
    by simp
  have h9: "fst (GET_list demo_env demo_store empty_cache (Some admin) 1 20 None None) =
              \<lparr>res_status = 200, res_body = ?L\<rparr>"
    using read_through_by_operation [OF db, where r = empty_cache and e = demo_env
        and user = "Some admin" and page = 1 and limit = 20 and cat = None and skill = None
        and listed = "[cs101]" and listedCount = 1]
      demo_miss docs adm
    by (simp add: demo_env_def)
  show ?thesis
    using db h1 h2 h3 h4 h5 h6 h7 h8 h9 by simp
qed

section \<open>Search keys and the order of the properties\<close>

text \<open>
  Claim C1 does not hold of the code.  \<open>options_a\<close> is \<open>{query: 'java', page: 1}\<close>
  and \<open>options_b\<close> is \<open>{page: 1, query: 'java'}\<close>: the same query, written in
  two orders.  \<open>searchCourses\<close> serialises the caller's object as it is, so the two
  keys differ, and the second of the two calls misses the entry that the first one
  wrote: it goes to the store and reports \<open>cached\<close> \<open>false\<close>.
\<close>

theorem reordered_descriptor_misses:
  "same_descriptor options_a options_b \<and>
   search_key demo_env options_a \<noteq> search_key demo_env options_b \<and>
   fst (searchCourses demo_env demo_store empty_cache options_a) =
     Inr (search_result [cs101] 1 1 20) \<and>
   cache_hit (fst (redis_get (snd (searchCourses demo_env demo_store empty_cache options_a))
                     (search_key demo_env options_b))) = None \<and>
   fst (searchCourses demo_env demo_store
          (snd (searchCourses demo_env demo_store empty_cache options_a)) options_b) =
     Inr (search_result [cs101] 1 1 20) \<and>
   js_get (search_result [cs101] 1 1 20) ''cached'' = JBool False"
proof -
  let ?r1 = "snd (searchCourses demo_env demo_store empty_cache options_a)"
  have db: "db_up demo_store" by (simp add: demo_store_def)
  have same: "same_descriptor options_a options_b"
    by (simp add: same_descriptor_def options_a_def options_b_def)
  have keys: "search_key demo_env options_a \<noteq> search_key demo_env options_b"
    by (simp add: search_key_def options_a_def options_b_def options_object_def field_prop_def
          json_quote_def json_escape_def)
  have first: "fst (searchCourses demo_env demo_store empty_cache options_a) =
                 Inr (search_result [cs101] 1 1 20)"
    by (rule searchCourses_miss(1) [OF db demo_miss refl])
       (simp_all add: demo_env_def demo_store_def search_query_def or_else_def options_a_def)
  have "entries ?r1 =
          client_setEx [] (search_key demo_env options_a) 600
            (JSON_stringify (number_digits demo_env) (search_result [cs101] 1 1 20))"
    using searchCourses_returns [OF demo_miss first] by (simp add: empty_cache_def)
  moreover have "server_up ?r1"
    by (simp add: searchCourses_def Let_def split_beta redis_get_snd redis_set_snd
          empty_cache_def split: option.splits sum.splits)
  ultimately have miss: "cache_hit (fst (redis_get ?r1 (search_key demo_env options_b))) = None"
    using keys by (simp add: redis_get_fst client_get_setEx) (simp add: client_get_def cache_hit_def)
  have second: "fst (searchCourses demo_env demo_store ?r1 options_b) =
                  Inr (search_result [cs101] 1 1 20)"
    by (rule searchCourses_miss(1) [OF db miss refl])
       (simp_all add: demo_env_def demo_store_def search_query_def or_else_def options_b_def)
  show ?thesis
    using same keys first miss second by (simp add: search_result_cached)
qed

section \<open>Updating a course and reading it back\<close>







lemma findOneAndUpdate_absent:
  assumes "find (has_id cid) (docs st) = None"
  shows "findOneAndUpdate st cid upd =
           (if \<not> db_up st then (Inl StoreUnavailable, st)
            else if \<not> update_valid upd then (Inl ValidationError, st)
            else (Inr None, st))"
  using assms by (simp add: findOneAndUpdate_def)


lemma write_invalidation:
  "server_up (invalidateSearchCaches (snd (redis_del r (''course:'' @ cid)))) = server_up r"
  "entries (invalidateSearchCaches (snd (redis_del r (''course:'' @ cid)))) =
     (if server_up r then filter (\<lambda>(k, e). \<not> invalidated_by_write cid k) (entries r)
      else entries r)"
  by (auto simp add: invalidateSearchCaches_state redis_del_snd client_del_def
        invalidated_by_write_def intro!: filter_cong)






section \<open>Writes to a key that is not stored\<close>

lemma updateCourse_absent:
  assumes "find (has_id cid) (docs st) = None"
  shows "updateCourse st r cid upd =
           (if \<not> db_up st then (Inl StoreUnavailable, st, r)
            else if \<not> update_valid upd then (Inl ValidationError, st, r)
            else (Inr None, st, r))"
  by (simp add: updateCourse_def findOneAndUpdate_absent [OF assms])

lemma deleteCourse_absent:
  assumes "find (has_id cid) (docs st) = None"
  shows "deleteCourse st r cid =
           (if \<not> db_up st then (Inl StoreUnavailable, st, r) else (Inr False, st, r))"
  using assms by (simp add: deleteCourse_def findOneAndDelete_def)

text \<open>
  Claim C5 fails as stated: \<open>updateCourse\<close> does not return \<open>null\<close> for every
  update of an absent key.  The update validators (\<open>runValidators: true\<close>) run
  before the lookup, so an update that sets \<open>rating\<close> to 7 is rejected with a
  validation error although no course \<open>cs999\<close> exists.
\<close>

theorem invalid_update_of_absent_key_throws:
  "db_up demo_store \<and> find (has_id ''cs999'') (docs demo_store) = None \<and>
   fst (updateCourse demo_store empty_cache ''cs999'' rating_out_of_range) = Inl ValidationError \<and>
   fst (updateCourse demo_store empty_cache ''cs999'' rating_out_of_range) \<noteq> Inr None"
proof -
  have f: "find (has_id ''cs999'') (docs demo_store) = None"
    by (simp add: demo_store_def has_id_def cs101_def)
  have "\<not> update_valid rating_out_of_range"
    by (simp add: update_valid_def rating_out_of_range_def no_update_def rating_min_max_def)
  then show ?thesis
    using f by (simp add: updateCourse_absent demo_store_def)
qed

text \<open>
  Claim C5, amended.  For a key that the store does not hold, \<open>deleteCourse\<close>
  returns \<open>false\<close> and \<open>updateCourse\<close> returns \<open>null\<close> for every update that
  passes the update validators (the store being reachable).  In every case, also when
  the call throws, the cache is exactly as it was and so is the store: no key is
  deleted and no pattern is swept.
\<close>

theorem absent_key_leaves_cache_alone:
  assumes "find (has_id cid) (docs st) = None"
  shows "snd (updateCourse st r cid upd) = (st, r) \<and>
         snd (deleteCourse st r cid) = (st, r) \<and>
         (db_up st \<and> update_valid upd \<longrightarrow> fst (updateCourse st r cid upd) = Inr None) \<and>
         (db_up st \<longrightarrow> fst (deleteCourse st r cid) = Inr False)"
  by (simp add: updateCourse_absent [OF assms] deleteCourse_absent [OF assms])

theorem absent_key_leaves_cache_alone_witness:
  "find (has_id ''cs999'') (docs demo_store) = None \<and> db_up demo_store \<and>
   update_valid lower_rating \<and>
   updateCourse demo_store warm_cache ''cs999'' lower_rating = (Inr None, demo_store, warm_cache) \<and>
   deleteCourse demo_store warm_cache ''cs999'' = (Inr False, demo_store, warm_cache)"
proof -
  have f: "find (has_id ''cs999'') (docs demo_store) = None"
    by (simp add: demo_store_def has_id_def cs101_def)
  have db: "db_up demo_store" by (simp add: demo_store_def)
  have v: "update_valid lower_rating"
    by (simp add: update_valid_def lower_rating_def no_update_def updated_string_valid_def
          rating_min_max_def)
  show ?thesis
    using f db v absent_key_leaves_cache_alone [OF f, of warm_cache lower_rating]
    by (simp add: prod_eq_iff)
qed

section \<open>The invalidation set of a write\<close>

lemma updateCourse_invalidates:
  assumes "fst (updateCourse st r cid upd) = Inr (Some u)"
  shows "entries (snd (snd (updateCourse st r cid upd))) =
           (if server_up r then filter (\<lambda>(k, e). \<not> invalidated_by_write cid k) (entries r)
            else entries r)"
  using assms write_invalidation(2) [of r cid]
  by (auto simp add: updateCourse_def split_beta split: if_splits sum.splits option.splits)

lemma deleteCourse_invalidates:
  assumes "fst (deleteCourse st r cid) = Inr True"
  shows "entries (snd (snd (deleteCourse st r cid))) =
           (if server_up r then filter (\<lambda>(k, e). \<not> invalidated_by_write cid k) (entries r)
            else entries r)"
  using assms write_invalidation(2) [of r cid]
  by (auto simp add: deleteCourse_def split_beta split: if_splits sum.splits option.splits)

lemma PUT_invalidates:
  assumes "res_status (fst (PUT e now st r user cid body)) = 200"
  shows "entries (snd (snd (PUT e now st r user cid body))) =
           (if server_up r
            then filter (\<lambda>(k, e). k \<noteq> ''course:'' @ cid \<and> \<not> prefix ''search:'' k \<and>
                                   \<not> prefix ''courses:'' k) (entries r)
            else entries r)"
  using assms
  by (auto simp add: PUT_def split_beta redis_del_snd redis_flushPattern_snd client_del_def
        split: if_splits sum.splits option.splits intro!: filter_cong)

lemma DELETE_invalidates:
  assumes "res_status (fst (DELETE e now st r user cid)) = 200"
  shows "entries (snd (snd (DELETE e now st r user cid))) =
           (if server_up r
            then filter (\<lambda>(k, e). k \<noteq> ''course:'' @ cid \<and> \<not> prefix ''search:'' k \<and>
                                   \<not> prefix ''courses:'' k) (entries r)
            else entries r)"
  using assms
  by (auto simp add: DELETE_def split_beta redis_del_snd redis_flushPattern_snd client_del_def
        split: if_splits sum.splits option.splits intro!: filter_cong)


lemma warm_keys:
  "map fst (entries warm_cache) =
     [''course:cs101'', ''search:{}'', ''course:stats'', ''courses:list:{}:1:20'']"
  by (simp add: warm_cache_def)

lemma warm_after_service_write:
  "map fst (filter (\<lambda>(k, e). \<not> invalidated_by_write ''cs101'' k) (entries warm_cache)) = []"
  by (simp add: warm_cache_def invalidated_by_write_def)

lemma warm_after_handler_write:
  "map fst (filter (\<lambda>(k, e). k \<noteq> ''course:'' @ ''cs101'' \<and> \<not> prefix ''search:'' k \<and>
                             \<not> prefix ''courses:'' k) (entries warm_cache)) = [''course:stats'']"
  by (simp add: warm_cache_def)

text \<open>
  Claim C3 holds of \<open>updateCourse\<close> and \<open>deleteCourse\<close> but not of the two request
  handlers that perform the same writes.  The cache below holds one entry of each
  kind.  After a successful \<open>PUT\<close> or \<open>DELETE\<close> of \<open>cs101\<close> the entry
  \<open>course:stats\<close> is still there, although it belongs to the invalidation set; the
  service call on the same state removes it with the rest.
\<close>

theorem handlers_keep_stats_entry:
  "map fst (entries warm_cache) =
     [''course:cs101'', ''search:{}'', ''course:stats'', ''courses:list:{}:1:20''] \<and>
   invalidated_by_write ''cs101'' ''course:stats'' \<and>
   res_status (fst (PUT demo_env demo_now demo_store warm_cache (Some admin) ''cs101'' lower_rating)) = 200 \<and>
   map fst (entries (snd (snd (PUT demo_env demo_now demo_store warm_cache (Some admin) ''cs101''
                                 lower_rating)))) = [''course:stats''] \<and>
   res_status (fst (DELETE demo_env demo_now demo_store warm_cache (Some admin) ''cs101'')) = 200 \<and>
   map fst (entries (snd (snd (DELETE demo_env demo_now demo_store warm_cache (Some admin)
                                 ''cs101'')))) = [''course:stats''] \<and>
   fst (updateCourse demo_store warm_cache ''cs101'' lower_rating) = Inr (Some (cs101\<lparr>rating := 3\<rparr>)) \<and>
   map fst (entries (snd (snd (updateCourse demo_store warm_cache ''cs101'' lower_rating)))) = [] \<and>
   fst (deleteCourse demo_store warm_cache ''cs101'') = Inr True \<and>
   map fst (entries (snd (snd (deleteCourse demo_store warm_cache ''cs101'')))) = []"
proof -
  have up: "server_up warm_cache" by (simp add: warm_cache_def)
  have v: "update_valid lower_rating"
    by (simp add: update_valid_def lower_rating_def no_update_def updated_string_valid_def
          rating_min_max_def)
  have body: "validateRequest CourseUpdateSchema lower_rating = Inr lower_rating"
    by (simp add: validateRequest_def CourseUpdateSchema_def course_schema_def zod_string_def
          zod_rating_def zod_skill_level_def lower_rating_def no_update_def)
  have put: "res_status (fst (PUT demo_env demo_now demo_store warm_cache (Some admin) ''cs101''
                               lower_rating)) = 200"
    using v body
    by (simp add: PUT_def isAdmin_def admin_def demo_store_def findOneAndUpdate_def has_id_def
          cs101_def apply_update_def or_else_def lower_rating_def no_update_def stored_ids_def
          split_beta Let_def)
  have del: "res_status (fst (DELETE demo_env demo_now demo_store warm_cache (Some admin)
                               ''cs101'')) = 200"
    by (simp add: DELETE_def isAdmin_def admin_def demo_store_def findOneAndDelete_def has_id_def
          cs101_def split_beta)
  have upd: "fst (updateCourse demo_store warm_cache ''cs101'' lower_rating) =
               Inr (Some (cs101\<lparr>rating := 3\<rparr>))"
    using v
    by (simp add: updateCourse_def demo_store_def findOneAndUpdate_def has_id_def
          cs101_def apply_update_def or_else_def lower_rating_def no_update_def stored_ids_def
          split_beta Let_def)
  have rem: "fst (deleteCourse demo_store warm_cache ''cs101'') = Inr True"
    by (simp add: deleteCourse_def demo_store_def findOneAndDelete_def has_id_def cs101_def
          split_beta)
  have inv: "invalidated_by_write ''cs101'' ''course:stats''"
    by (simp add: invalidated_by_write_def)
  show ?thesis
    using warm_keys inv put del upd rem up warm_after_service_write warm_after_handler_write
    by (simp add: PUT_invalidates [OF put] DELETE_invalidates [OF del]
          updateCourse_invalidates [OF upd] deleteCourse_invalidates [OF rem])
qed

section \<open>The range of a rating\<close>

lemma no_rating_issue_from_strings:
  "path \<noteq> ''rating'' \<Longrightarrow> (''rating'', m) \<notin> set (zod_string partial path lo lo_message hi v)"
  by (auto simp: zod_string_def split: option.splits if_splits)

lemma no_rating_issue_from_skill: "(''rating'', m) \<notin> set (zod_skill_level partial v)"
  by (auto simp: zod_skill_level_def split: option.splits if_splits)

lemma rating_issue_iff:
  "(\<exists>m. (''rating'', m) \<in> set (course_schema partial (d\<lparr>p_rating := Some r\<rparr>))) = (r < 0 \<or> 5 < r)"
  by (simp add: course_schema_def no_rating_issue_from_strings no_rating_issue_from_skill
        zod_rating_def) blast

lemma validateRequest_rejects:
  "i \<in> set (schema d) \<Longrightarrow> \<exists>errs. validateRequest schema d = Inl errs"
  by (cases "schema d") (auto simp: validateRequest_def)

lemma in_set_if_single: "x \<in> set (if b then [y] else []) \<longleftrightarrow> b \<and> x = y"
  by auto

lemma csv_rating_message_iff:
  assumes "csv_rating row \<noteq> []" and "parseFloat (csv_rating row) = Some r"
  shows "(rating_message \<in> set (validateCourseData parseFloat row)) = (r < 0 \<or> 5 < r)"
  using assms
  by (simp add: validateCourseData_def rating_message_def in_set_if_single
        del: set_simps split del: if_split)

text \<open>
  Claim C8.  \<open>CourseCreateSchema\<close> raises an issue on the path \<open>rating\<close>, and
  \<open>validateRequest\<close> therefore rejects the record, when the rating is below 0 or
  above 5; for a rating from 0 to 5, both ends included, it raises none on that path.
  \<open>validateCourseData\<close> reports its rating message for a row whose rating text
  parses to a number below 0 or above 5, and does not report it when the number is
  from 0 to 5.
\<close>

theorem rating_must_lie_in_range:
  "(r < 0 \<or> 5 < r \<longrightarrow>
      (\<exists>m. (''rating'', m) \<in> set (CourseCreateSchema (d\<lparr>p_rating := Some r\<rparr>))) \<and>
      (\<exists>errs. validateRequest CourseCreateSchema (d\<lparr>p_rating := Some r\<rparr>) = Inl errs)) \<and>
   (0 \<le> r \<and> r \<le> 5 \<longrightarrow>
      (\<forall>m. (''rating'', m) \<notin> set (CourseCreateSchema (d\<lparr>p_rating := Some r\<rparr>)))) \<and>
   (csv_rating row \<noteq> [] \<and> parseFloat (csv_rating row) = Some r \<and> (r < 0 \<or> 5 < r) \<longrightarrow>
      rating_message \<in> set (validateCourseData parseFloat row)) \<and>
   (csv_rating row \<noteq> [] \<and> parseFloat (csv_rating row) = Some r \<and> 0 \<le> r \<and> r \<le> 5 \<longrightarrow>
      rating_message \<notin> set (validateCourseData parseFloat row))"
proof (intro conjI impI)
  assume out: "r < 0 \<or> 5 < r"
  then show "\<exists>m. (''rating'', m) \<in> set (CourseCreateSchema (d\<lparr>p_rating := Some r\<rparr>))"
    by (simp add: CourseCreateSchema_def rating_issue_iff)
  then show "\<exists>errs. validateRequest CourseCreateSchema (d\<lparr>p_rating := Some r\<rparr>) = Inl errs"
    by (auto intro: validateRequest_rejects)
next
  assume "0 \<le> r \<and> r \<le> 5"
  then have "\<not> (r < 0 \<or> 5 < r)" by auto
  then show "\<forall>m. (''rating'', m) \<notin> set (CourseCreateSchema (d\<lparr>p_rating := Some r\<rparr>))"
    using rating_issue_iff [where partial = False and d = d and r = r]
    by (simp add: CourseCreateSchema_def)
next
  assume "csv_rating row \<noteq> [] \<and> parseFloat (csv_rating row) = Some r \<and> (r < 0 \<or> 5 < r)"
  then show "rating_message \<in> set (validateCourseData parseFloat row)"
    by (simp add: csv_rating_message_iff)
next
  assume "csv_rating row \<noteq> [] \<and> parseFloat (csv_rating row) = Some r \<and> 0 \<le> r \<and> r \<le> 5"
  then show "rating_message \<notin> set (validateCourseData parseFloat row)"
    by (auto simp: csv_rating_message_iff)
qed


theorem rating_must_lie_in_range_witness:
  "(\<exists>m. (''rating'', m) \<in> set (CourseCreateSchema ((as_partial cs101)\<lparr>p_rating := Some (- 1 / 10)\<rparr>))) \<and>
   (\<exists>m. (''rating'', m) \<in> set (CourseCreateSchema ((as_partial cs101)\<lparr>p_rating := Some (51 / 10)\<rparr>))) \<and>
   (\<forall>m. (''rating'', m) \<notin> set (CourseCreateSchema ((as_partial cs101)\<lparr>p_rating := Some 0\<rparr>))) \<and>
   (\<forall>m. (''rating'', m) \<notin> set (CourseCreateSchema ((as_partial cs101)\<lparr>p_rating := Some 5\<rparr>))) \<and>
   validateRequest CourseCreateSchema ((as_partial cs101)\<lparr>p_rating := Some (- 1 / 10)\<rparr>) =
     Inl [''rating: Number must be greater than or equal to 0''] \<and>
   validateRequest CourseCreateSchema ((as_partial cs101)\<lparr>p_rating := Some (51 / 10)\<rparr>) =
     Inl [''rating: Rating must be between 0 and 5''] \<and>
   validateRequest CourseCreateSchema ((as_partial cs101)\<lparr>p_rating := Some 0\<rparr>) =
     Inr ((as_partial cs101)\<lparr>p_rating := Some 0\<rparr>) \<and>
   validateRequest CourseCreateSchema ((as_partial cs101)\<lparr>p_rating := Some 5\<rparr>) =
     Inr ((as_partial cs101)\<lparr>p_rating := Some 5\<rparr>) \<and>
   rating_message \<in> set (validateCourseData demo_parseFloat (csv_row ''-0.1'')) \<and>
   rating_message \<in> set (validateCourseData demo_parseFloat (csv_row ''5.1'')) \<and>
   rating_message \<notin> set (validateCourseData demo_parseFloat (csv_row ''0'')) \<and>
   rating_message \<notin> set (validateCourseData demo_parseFloat (csv_row ''5''))"
proof -
  let ?d = "as_partial cs101"
  have z1: "\<exists>m. (''rating'', m) \<in> set (CourseCreateSchema (?d\<lparr>p_rating := Some (- 1 / 10)\<rparr>))"
    using rating_must_lie_in_range [where r = "- 1 / 10" and d = "?d"] by simp
  have z2: "\<exists>m. (''rating'', m) \<in> set (CourseCreateSchema (?d\<lparr>p_rating := Some (51 / 10)\<rparr>))"
    using rating_must_lie_in_range [where r = "51 / 10" and d = "?d"] by simp
  have z3: "\<forall>m. (''rating'', m) \<notin> set (CourseCreateSchema (?d\<lparr>p_rating := Some 0\<rparr>))"
    using rating_must_lie_in_range [where r = 0 and d = "?d"] by simp
  have z4: "\<forall>m. (''rating'', m) \<notin> set (CourseCreateSchema (?d\<lparr>p_rating := Some 5\<rparr>))"
    using rating_must_lie_in_range [where r = 5 and d = "?d"] by simp
  have c1: "rating_message \<in> set (validateCourseData demo_parseFloat (csv_row ''-0.1''))"
    using rating_must_lie_in_range [where r = "- 1 / 10" and row = "csv_row ''-0.1''"
        and parseFloat = demo_parseFloat]
    by (simp add: csv_row_def demo_parseFloat_def)
  have c2: "rating_message \<in> set (validateCourseData demo_parseFloat (csv_row ''5.1''))"
    using rating_must_lie_in_range [where r = "51 / 10" and row = "csv_row ''5.1''"
        and parseFloat = demo_parseFloat]
    by (simp add: csv_row_def demo_parseFloat_def)
  have c3: "rating_message \<notin> set (validateCourseData demo_parseFloat (csv_row ''0''))"
    using rating_must_lie_in_range [where r = 0 and row = "csv_row ''0''"
        and parseFloat = demo_parseFloat]
    by (simp add: csv_row_def demo_parseFloat_def)
  have c4: "rating_message \<notin> set (validateCourseData demo_parseFloat (csv_row ''5''))"
    using rating_must_lie_in_range [where r = 5 and row = "csv_row ''5''"
        and parseFloat = demo_parseFloat]
    by (simp add: csv_row_def demo_parseFloat_def)
  have v: "validateRequest CourseCreateSchema (?d\<lparr>p_rating := Some (- 1 / 10)\<rparr>) =
             Inl [''rating: Number must be greater than or equal to 0'']"
    "validateRequest CourseCreateSchema (?d\<lparr>p_rating := Some (51 / 10)\<rparr>) =
             Inl [''rating: Rating must be between 0 and 5'']"
    "validateRequest CourseCreateSchema (?d\<lparr>p_rating := Some 0\<rparr>) = Inr (?d\<lparr>p_rating := Some 0\<rparr>)"
    "validateRequest CourseCreateSchema (?d\<lparr>p_rating := Some 5\<rparr>) = Inr (?d\<lparr>p_rating := Some 5\<rparr>)"
    by (simp_all add: validateRequest_def CourseCreateSchema_def course_schema_def zod_string_def
          zod_rating_def zod_skill_level_def skill_levels_def as_partial_def cs101_def)
  show ?thesis
    using z1 z2 z3 z4 c1 c2 c3 c4 v by blast
qed

section \<open>Bulk insertion\<close>



lemma stored_ids_append: "stored_ids (ds @ es) = stored_ids ds @ stored_ids es"
  by (simp add: stored_ids_def)









end
